theory Spec2Isabelle
  imports Complex_Main "HOL-Library.Multiset"
begin

section \<open>JavaScript values\<close>

text \<open>
  A JavaScript number is a finite value, one of the two infinities, or NaN. Finite
  values are kept exact (a real number): IEEE rounding and the sign of zero are not
  represented. Every operation below propagates NaN and the infinities the way the
  language does.
\<close>

datatype number = Num real | PInf | NInf | NaN

fun nneg :: "number \<Rightarrow> number" where
  "nneg (Num r) = Num (- r)"
| "nneg PInf = NInf"
| "nneg NInf = PInf"
| "nneg NaN = NaN"

fun Math_abs :: "number \<Rightarrow> number" where
  "Math_abs (Num r) = Num \<bar>r\<bar>"
| "Math_abs PInf = PInf"
| "Math_abs NInf = PInf"
| "Math_abs NaN = NaN"

text \<open>The sign of a number that is not NaN: \<open>-1\<close>, \<open>0\<close> or \<open>1\<close>.\<close>

fun nsgn :: "number \<Rightarrow> int" where
  "nsgn (Num r) = (if r < 0 then - 1 else if r = 0 then 0 else 1)"
| "nsgn PInf = 1"
| "nsgn NInf = - 1"
| "nsgn NaN = 0"

definition signed_inf :: "int \<Rightarrow> number" where
  "signed_inf s = (if s < 0 then NInf else PInf)"

fun nadd :: "number \<Rightarrow> number \<Rightarrow> number" where
  "nadd (Num a) (Num b) = Num (a + b)"
| "nadd (Num a) PInf = PInf"
| "nadd (Num a) NInf = NInf"
| "nadd PInf (Num b) = PInf"
| "nadd PInf PInf = PInf"
| "nadd PInf NInf = NaN"
| "nadd NInf (Num b) = NInf"
| "nadd NInf NInf = NInf"
| "nadd NInf PInf = NaN"
| "nadd NaN b = NaN"
| "nadd a NaN = NaN"

definition nsub :: "number \<Rightarrow> number \<Rightarrow> number" where
  "nsub a b = nadd a (nneg b)"

definition nmul :: "number \<Rightarrow> number \<Rightarrow> number" where
  "nmul a b =
     (case (a, b) of
        (NaN, _) \<Rightarrow> NaN
      | (_, NaN) \<Rightarrow> NaN
      | (Num x, Num y) \<Rightarrow> Num (x * y)
      | (_, _) \<Rightarrow> if nsgn a * nsgn b = 0 then NaN else signed_inf (nsgn a * nsgn b))"

definition ndiv :: "number \<Rightarrow> number \<Rightarrow> number" where
  "ndiv a b =
     (case (a, b) of
        (NaN, _) \<Rightarrow> NaN
      | (_, NaN) \<Rightarrow> NaN
      | (Num x, Num y) \<Rightarrow>
          if y \<noteq> 0 then Num (x / y)
          else if x = 0 then NaN
          else signed_inf (nsgn a)
      | (Num x, _) \<Rightarrow> Num 0
      | (_, Num y) \<Rightarrow> signed_inf (nsgn a * (if y < 0 then - 1 else 1))
      | (_, _) \<Rightarrow> NaN)"

text \<open>The comparisons \<open>>\<close> and \<open>>=\<close>: false as soon as one side is NaN.\<close>

fun gt :: "number \<Rightarrow> number \<Rightarrow> bool" where
  "gt (Num a) (Num b) = (b < a)"
| "gt NaN b = False"
| "gt a NaN = False"
| "gt PInf b = (b \<noteq> PInf)"
| "gt a PInf = False"
| "gt NInf b = False"
| "gt a NInf = True"

fun ge :: "number \<Rightarrow> number \<Rightarrow> bool" where
  "ge NaN b = False"
| "ge a NaN = False"
| "ge a b = (a = b \<or> gt a b)"

text \<open>
  \<open>Math.max\<close> of a list of arguments: \<open>-Infinity\<close> for no argument, NaN as soon
  as one argument is NaN.
\<close>

fun max2 :: "number \<Rightarrow> number \<Rightarrow> number" where
  "max2 NaN b = NaN"
| "max2 a NaN = NaN"
| "max2 a b = (if gt b a then b else a)"

definition Math_max :: "number list \<Rightarrow> number" where
  "Math_max xs = foldl max2 NInf xs"

text \<open>
  The values a caller can pass to \<open>search\<close>. An object that is neither an array nor a
  primitive is \<open>Object\<close>; nothing in the argument handling looks inside one.
\<close>

datatype jsval =
    Undefined
  | Null
  | Boolean bool
  | Number number
  | String string
  | Array "jsval list"
  | Object

datatype jstype = T_undefined | T_object | T_boolean | T_number | T_string

fun typeof :: "jsval \<Rightarrow> jstype" where
  "typeof Undefined = T_undefined"
| "typeof Null = T_object"
| "typeof (Boolean b) = T_boolean"
| "typeof (Number n) = T_number"
| "typeof (String s) = T_string"
| "typeof (Array xs) = T_object"
| "typeof Object = T_object"

fun isArray :: "jsval \<Rightarrow> bool" where
  "isArray (Array xs) = True"
| "isArray v = False"

text \<open>Truthiness, as \<open>if (v)\<close>, \<open>v && w\<close> and \<open>v || w\<close> read a value.\<close>

fun truthy :: "jsval \<Rightarrow> bool" where
  "truthy Undefined = False"
| "truthy Null = False"
| "truthy (Boolean b) = b"
| "truthy (Number (Num r)) = (r \<noteq> 0)"
| "truthy (Number NaN) = False"
| "truthy (Number n) = True"
| "truthy (String s) = (s \<noteq> [])"
| "truthy (Array xs) = True"
| "truthy Object = True"

definition js_or :: "jsval \<Rightarrow> jsval \<Rightarrow> jsval" where
  "js_or a b = (if truthy a then a else b)"

section \<open>Errors\<close>

text \<open>
  \<open>Error\<close> is the plain error \<open>_getSearchArgs\<close> throws, \<open>TypeError\<close> the one the
  language raises on a property read of \<open>undefined\<close>, and \<open>YouTubeSearchError\<close> the
  class of the file: a message and the optional fields \<open>statusCode\<close>, \<open>status\<close>
  and \<open>body\<close>, each set only when the constructor's argument is truthy.
\<close>

record search_error =
  message :: string
  statusCode :: "nat option"
  status :: "string option"
  body :: "string option"

datatype error =
    Error string
  | TypeError
  | YouTubeSearchError search_error

section \<open>Argument shuffling and validation: \<open>_getSearchArgs\<close>\<close>

record raw_args =
  a_artists :: jsval
  a_track :: jsval
  a_album :: jsval
  a_duration :: jsval

text \<open>Lines 24 to 28: the three reassignments, in the order of the source.\<close>

definition shuffle_track :: "raw_args \<Rightarrow> raw_args" where
  "shuffle_track a =
     (if typeof (a_track a) = T_number
      then a\<lparr>a_track := Undefined, a_duration := a_track a\<rparr> else a)"

definition shuffle_album :: "raw_args \<Rightarrow> raw_args" where
  "shuffle_album a =
     (if typeof (a_album a) = T_number
      then a\<lparr>a_album := Undefined, a_duration := a_album a\<rparr> else a)"

definition shuffle_artists :: "raw_args \<Rightarrow> raw_args" where
  "shuffle_artists a =
     (if \<not> isArray (a_artists a) then
        (if truthy (a_track a) \<and> truthy (a_artists a)
         then a\<lparr>a_artists := Array [a_artists a]\<rparr>
         else a\<lparr>a_artists := Array [], a_track := js_or (a_artists a) (a_track a)\<rparr>)
      else a)"

definition shuffleArgs :: "raw_args \<Rightarrow> raw_args" where
  "shuffleArgs a = shuffle_artists (shuffle_album (shuffle_track a))"

text \<open>
  What \<open>_getSearchArgs\<close> returns: the artists are strings, the track and the album
  are strings, the duration is whatever passed the last check (a number, or any
  falsy value).
\<close>

record search_args =
  q_artists :: "string list"
  q_track :: string
  q_album :: string
  q_duration :: jsval

fun the_string :: "jsval \<Rightarrow> string" where
  "the_string (String s) = s"
| "the_string v = []"

text \<open>Lines 29 to 34: the four checks, in the order of the source.\<close>

definition validateArgs :: "raw_args \<Rightarrow> error + search_args" where
  "validateArgs a =
     (if typeof (a_track a) \<noteq> T_string then Inl (Error ''<track> must be a valid string'')
      else if typeof (a_album a) \<noteq> T_string then Inl (Error ''<album> must be a valid string'')
      else case a_artists a of
        Array xs \<Rightarrow>
          if list_ex (\<lambda>artist. typeof artist \<noteq> T_string) xs
          then Inl (Error ''<artist>, if defined must be a valid array of strings'')
          else if truthy (a_duration a) \<and> typeof (a_duration a) \<noteq> T_number
          then Inl (Error ''<duration>, if defined must be a valid number'')
          else Inr \<lparr>q_artists = map the_string xs, q_track = the_string (a_track a),
                    q_album = the_string (a_album a), q_duration = a_duration a\<rparr>
      | _ \<Rightarrow> Inl TypeError)"

definition getSearchArgs :: "jsval \<Rightarrow> jsval \<Rightarrow> jsval \<Rightarrow> jsval \<Rightarrow> error + search_args" where
  "getSearchArgs ar tr al du =
     validateArgs (shuffleArgs \<lparr>a_artists = ar, a_track = tr, a_album = al, a_duration = du\<rparr>)"

section \<open>Strings, objects and sorting\<close>

text \<open>
  \<open>s.split(c)\<close> for a one-character separator: never the empty array (the empty
  string gives one empty piece), and two separators in a row give an empty piece.
\<close>

fun split_on :: "char \<Rightarrow> string \<Rightarrow> string list" where
  "split_on c [] = [[]]"
| "split_on c (x # xs) =
     (if x = c then [] # split_on c xs
      else case split_on c xs of
             [] \<Rightarrow> [[x]]
           | w # ws \<Rightarrow> (x # w) # ws)"

text \<open>The lower-case form of an ASCII letter; any other character is kept.\<close>

definition lower :: "char \<Rightarrow> char" where
  "lower c =
     (case map_of (zip ''ABCDEFGHIJKLMNOPQRSTUVWXYZ'' ''abcdefghijklmnopqrstuvwxyz'') c of
        None \<Rightarrow> c
      | Some l \<Rightarrow> l)"

text \<open>\<open>xs.join(' ')\<close>.\<close>

fun join_sp :: "string list \<Rightarrow> string" where
  "join_sp [] = []"
| "join_sp [x] = x"
| "join_sp (x # y # ys) = x @ '' '' @ join_sp (y # ys)"

text \<open>
  A plain object used as a dictionary is the list of its own entries in insertion
  order, with distinct keys. Two details of the language matter to the code:

  \<^item> \<open>k in obj\<close> is also true of the names every object inherits from
    \<open>Object.prototype\<close>;
  \<^item> \<open>Object.values\<close> lists the entries whose key is an array index (the canonical
    decimal form of an integer below \<open>2^32 - 1\<close>) first, in ascending numeric order,
    and the others after them in insertion order.
\<close>

definition Object_prototype_keys :: "string list" where
  "Object_prototype_keys =
     [''constructor'', ''__defineGetter__'', ''__defineSetter__'', ''hasOwnProperty'',
      ''__lookupGetter__'', ''__lookupSetter__'', ''isPrototypeOf'',
      ''propertyIsEnumerable'', ''toString'', ''valueOf'', ''__proto__'',
      ''toLocaleString'']"

definition has_key :: "string \<Rightarrow> (string \<times> 'a) list \<Rightarrow> bool" where
  "has_key k obj = (k \<in> set (map fst obj) \<or> k \<in> set Object_prototype_keys)"

definition digit_value :: "char \<Rightarrow> nat" where
  "digit_value c = of_char c - 48"

definition is_digit :: "char \<Rightarrow> bool" where
  "is_digit c = (48 \<le> (of_char c :: nat) \<and> (of_char c :: nat) \<le> 57)"

definition decimal_value :: "string \<Rightarrow> nat" where
  "decimal_value s = foldl (\<lambda>n c. 10 * n + digit_value c) 0 s"

definition is_array_index :: "string \<Rightarrow> bool" where
  "is_array_index s =
     (s \<noteq> [] \<and> list_all is_digit s \<and> (s = ''0'' \<or> hd s \<noteq> CHR ''0'')
      \<and> decimal_value s < 4294967295)"

definition Object_values :: "(string \<times> 'a) list \<Rightarrow> 'a list" where
  "Object_values obj =
     map snd (sort_key (\<lambda>e. decimal_value (fst e)) (filter (\<lambda>e. is_array_index (fst e)) obj)
              @ filter (\<lambda>e. \<not> is_array_index (fst e)) obj)"

text \<open>
  \<open>Array.prototype.sort\<close> with a comparison function. The built-in is not part of the
  repository; the language requires it to be stable. It is modelled as the stable
  insertion sort: each element in turn is placed in the sorted prefix, the comparison
  function is called with the element being placed first and an element of the prefix
  second, and only the sign of its result is read (negative: the new element goes
  before). Where the comparison function orders the elements consistently, every
  stable sort returns this array.
\<close>

fun insert_by :: "('a \<Rightarrow> 'a \<Rightarrow> int) \<Rightarrow> 'a \<Rightarrow> 'a list \<Rightarrow> 'a list" where
  "insert_by cmp p [] = [p]"
| "insert_by cmp p (e # es) =
     (if cmp p e < 0 then p # e # es else e # insert_by cmp p es)"

definition Array_sort :: "('a \<Rightarrow> 'a \<Rightarrow> int) \<Rightarrow> 'a list \<Rightarrow> 'a list" where
  "Array_sort cmp xs = foldl (\<lambda>sorted p. insert_by cmp p sorted) [] xs"

text \<open>The comparison function of both backends: \<open>(a, b) => (a.accuracy > b.accuracy ? -1 : 1)\<close>.\<close>

definition by_accuracy :: "('a \<Rightarrow> number) \<Rightarrow> 'a \<Rightarrow> 'a \<Rightarrow> int" where
  "by_accuracy acc a b = (if gt (acc a) (acc b) then - 1 else 1)"

text \<open>A list is in descending order of accuracy when no element is followed, anywhere
  later, by one whose accuracy is strictly greater.\<close>

definition descending :: "('a \<Rightarrow> number) \<Rightarrow> 'a list \<Rightarrow> bool" where
  "descending acc xs = sorted_wrt (\<lambda>a b. \<not> gt (acc b) (acc a)) xs"

section \<open>Collaborators that are not in the file\<close>

text \<open>
  \<open>text_utils.js\<close> is imported, not defined here: its two functions are parameters
  of the model. \<open>stripText\<close> takes a list of strings and returns the normalised tokens,
  \<open>getWeight\<close> compares two token lists and returns a number.
\<close>

record text_utils =
  stripText :: "string list \<Rightarrow> string list"
  getWeight :: "string list \<Rightarrow> string list \<Rightarrow> number"

section \<open>Backend A: \<open>YouTubeMusic.search\<close>\<close>

text \<open>
  The items \<open>#search\<close> returns. Each field is \<open>None\<close> when the object has no such key.
  \<open>album\<close> is \<open>null\<close> or a reference; \<open>videoId\<close> is what \<open>walk\<close> found at the play
  button, \<open>undefined\<close> when the path is absent: \<open>#search\<close> assigns the key for every
  song and video (line 225), whatever \<open>walk\<close> returns.
\<close>

record nav =
  n_name :: string
  n_id :: string

record ytm_item =
  i_type :: "string option"
  i_title :: "string option"
  i_artists :: "nav list option"
  i_album :: "nav option option"
  i_videoId :: "string option option"
  i_duration :: "string option"

text \<open>The three sections \<open>search\<close> reads; \<open>None\<close> when the response has no such section.\<close>

record ytm_results =
  r_top :: "ytm_item list option"
  r_songs :: "ytm_item list option"
  r_videos :: "ytm_item list option"

record weighted =
  w_item :: ytm_item
  w_weight :: number

text \<open>
  The cleaned item of lines 338 to 346, with its accuracy. \<open>getFeeds\<close> is a closure
  over \<open>videoId\<close> that \<open>search\<close> never calls; it is determined by \<open>c_videoId\<close>.
\<close>

record candidate =
  c_title :: "string option"
  c_type :: "string option"
  c_author :: "nav list option"
  c_duration :: string
  c_duration_ms :: number
  c_videoId :: "string option"
  c_accuracy :: number

fun or_empty :: "'a list option \<Rightarrow> 'a list" where
  "or_empty None = []"
| "or_empty (Some xs) = xs"

text \<open>Lines 303 to 307.\<close>

definition sections :: "ytm_results \<Rightarrow> ytm_item list" where
  "sections r = or_empty (r_top r) @ or_empty (r_songs r) @ or_empty (r_videos r)"

definition album_words :: "ytm_item \<Rightarrow> string list" where
  "album_words item =
     (case i_album item of
        Some (Some al) \<Rightarrow> split_on CHR '' '' (n_name al)
      | _ \<Rightarrow> [])"

text \<open>
  Lines 309 to 322, for one item: \<open>None\<close> is the falsy value that \<open>filter(Boolean)\<close>
  removes; reading \<open>item.artists.map\<close> on an item without artists raises.
\<close>

definition weigh :: "text_utils \<Rightarrow> string list \<Rightarrow> ytm_item \<Rightarrow> error + weighted option" where
  "weigh tu strippedMeta item =
     (case i_title item of
        None \<Rightarrow> Inr None
      | Some title \<Rightarrow>
          if i_type item \<noteq> Some ''song'' \<and> i_type item \<noteq> Some ''video'' then Inr None
          else case i_artists item of
            None \<Rightarrow> Inl TypeError
          | Some ars \<Rightarrow>
              Inr (Some \<lparr>w_item = item,
                 w_weight = getWeight tu strippedMeta
                   (stripText tu (split_on CHR '' '' title @ album_words item @ map n_name ars))\<rparr>))"

fun validSections :: "text_utils \<Rightarrow> string list \<Rightarrow> ytm_item list \<Rightarrow> error + weighted list" where
  "validSections tu strippedMeta [] = Inr []"
| "validSections tu strippedMeta (item # items) =
     (case weigh tu strippedMeta item of
        Inl e \<Rightarrow> Inl e
      | Inr w \<Rightarrow>
          (case validSections tu strippedMeta items of
             Inl e \<Rightarrow> Inl e
           | Inr ws \<Rightarrow> Inr (case w of None \<Rightarrow> ws | Some x \<Rightarrow> x # ws)))"

text \<open>
  After validation a truthy duration is a number (line 33), so \<open>duration - x\<close> and
  \<open>x / duration\<close> read it as it is.
\<close>

fun the_number :: "jsval \<Rightarrow> number" where
  "the_number (Number n) = n"
| "the_number v = NaN"

text \<open>\<open>duration ? Math.abs(duration - actual) / duration : 0.5\<close>, lines 328 and 432.\<close>

definition duration_delta :: "jsval \<Rightarrow> number \<Rightarrow> number" where
  "duration_delta duration actual =
     (if truthy duration
      then ndiv (Math_abs (nsub (the_number duration) actual)) (the_number duration)
      else Num (1 / 2))"

definition type_bump :: "string option \<Rightarrow> number" where
  "type_bump t = (if t = Some ''song'' then Num 50 else if t = Some ''video'' then Num 25 else Num 5)"

text \<open>Lines 325 to 333.\<close>

definition calculateAccuracyFor_A :: "jsval \<Rightarrow> candidate \<Rightarrow> number \<Rightarrow> number" where
  "calculateAccuracyFor_A duration item weight =
     (let accuracy = Num 0;
          accuracy = nadd accuracy
            (nsub weight (nmul (duration_delta duration (c_duration_ms item)) (Num 100)));
          accuracy = nadd accuracy
            (nmul (ndiv (type_bump (c_type item)) (Num 100)) (nsub (Num 100) accuracy))
      in accuracy)"

text \<open>
  Line 343: \<open>item.duration.split(':').reduce((acc, time) => 60 * acc + +time) * 1000\<close>.
  The reduction has no initial value, so it starts from the first piece, which the
  first multiplication converts to a number. The conversion of a string to a number
  is the language's; it is the parameter \<open>ToNumber\<close>.
\<close>

definition duration_ms_of :: "(string \<Rightarrow> number) \<Rightarrow> string \<Rightarrow> number" where
  "duration_ms_of ToNumber d =
     (case split_on CHR '':'' d of
        [] \<Rightarrow> NaN
      | t # ts \<Rightarrow>
          nmul (foldl (\<lambda>acc time. nadd (nmul (Num 60) acc) (ToNumber time)) (ToNumber t) ts)
               (Num 1000))"

text \<open>The key under which an identifier is stored: \<open>undefined\<close> becomes the string "undefined".\<close>

fun key_of :: "string option \<Rightarrow> string" where
  "key_of None = ''undefined''"
| "key_of (Some v) = v"

text \<open>Lines 338 to 347: the cleaned item, with the accuracy assigned on line 347.\<close>

definition cleanItem_of ::
  "(string \<Rightarrow> number) \<Rightarrow> jsval \<Rightarrow> weighted \<Rightarrow> string \<Rightarrow> string option \<Rightarrow> candidate" where
  "cleanItem_of ToNumber duration w d videoId =
     (let item = w_item w;
          cleanItem = \<lparr>c_title = i_title item, c_type = i_type item,
            c_author = i_artists item, c_duration = d,
            c_duration_ms = duration_ms_of ToNumber d, c_videoId = videoId,
            c_accuracy = NaN\<rparr>
      in cleanItem\<lparr>c_accuracy := calculateAccuracyFor_A duration cleanItem (w_weight w)\<rparr>)"

text \<open>
  Lines 335 to 349, for one item. Reading \<open>item.duration.split\<close> on an item without
  a duration raises.
\<close>

definition classify_step ::
  "(string \<Rightarrow> number) \<Rightarrow> jsval \<Rightarrow> (string \<times> candidate) list \<Rightarrow> weighted
     \<Rightarrow> error + (string \<times> candidate) list" where
  "classify_step ToNumber duration final w =
     (case i_videoId (w_item w) of
        None \<Rightarrow> Inr final
      | Some videoId \<Rightarrow>
          if gt (w_weight w) (Num 65) \<and> \<not> has_key (key_of videoId) final then
            (case i_duration (w_item w) of
               None \<Rightarrow> Inl TypeError
             | Some d \<Rightarrow>
                 let cleanItem = cleanItem_of ToNumber duration w d videoId
                 in if gt (c_accuracy cleanItem) (Num 80)
                    then Inr (final @ [(key_of videoId, cleanItem)])
                    else Inr final)
          else Inr final)"

fun classify ::
  "(string \<Rightarrow> number) \<Rightarrow> jsval \<Rightarrow> (string \<times> candidate) list \<Rightarrow> weighted list
     \<Rightarrow> error + (string \<times> candidate) list" where
  "classify ToNumber duration final [] = Inr final"
| "classify ToNumber duration final (w # ws) =
     (case classify_step ToNumber duration final w of
        Inl e \<Rightarrow> Inl e
      | Inr final' \<Rightarrow> classify ToNumber duration final' ws)"

text \<open>
  Lines 298 to 354. The request of \<open>#search\<close> is the parameter \<open>request\<close>: the query
  string it is sent, and the error it rejects with or the sections it returns.
\<close>

definition strippedMeta_A :: "text_utils \<Rightarrow> search_args \<Rightarrow> string list" where
  "strippedMeta_A tu q =
     stripText tu (split_on CHR '' '' (q_track q) @ [q_album q] @ q_artists q)"

definition YouTubeMusic_final ::
  "text_utils \<Rightarrow> (string \<Rightarrow> number) \<Rightarrow> (string \<Rightarrow> error + ytm_results) \<Rightarrow> search_args
     \<Rightarrow> error + (string \<times> candidate) list" where
  "YouTubeMusic_final tu ToNumber request q =
     (case request (join_sp ([q_track q, q_album q] @ q_artists q)) of
        Inl e \<Rightarrow> Inl e
      | Inr results \<Rightarrow>
          (case validSections tu (strippedMeta_A tu q) (sections results) of
             Inl e \<Rightarrow> Inl e
           | Inr valid \<Rightarrow> classify ToNumber (q_duration q) [] valid))"

definition YouTubeMusic_search_args ::
  "text_utils \<Rightarrow> (string \<Rightarrow> number) \<Rightarrow> (string \<Rightarrow> error + ytm_results) \<Rightarrow> search_args
     \<Rightarrow> error + candidate list" where
  "YouTubeMusic_search_args tu ToNumber request q =
     (case YouTubeMusic_final tu ToNumber request q of
        Inl e \<Rightarrow> Inl e
      | Inr final \<Rightarrow> Inr (Array_sort (by_accuracy c_accuracy) (Object_values final)))"

definition YouTubeMusic_search ::
  "text_utils \<Rightarrow> (string \<Rightarrow> number) \<Rightarrow> (string \<Rightarrow> error + ytm_results)
     \<Rightarrow> jsval \<Rightarrow> jsval \<Rightarrow> jsval \<Rightarrow> jsval \<Rightarrow> error + candidate list" where
  "YouTubeMusic_search tu ToNumber request ar tr al du =
     (case getSearchArgs ar tr al du of
        Inl e \<Rightarrow> Inl e
      | Inr q \<Rightarrow> YouTubeMusic_search_args tu ToNumber request q)"

section \<open>Backend B: \<open>YouTube.search\<close>\<close>

text \<open>
  A video as the keyword search lists it: \<open>author\<close> is \<open>item.author.name\<close>,
  \<open>timestamp\<close> and \<open>seconds\<close> are the two fields of \<open>item.duration\<close>. The identifier
  and the view count may be missing.
\<close>

record yt_video =
  v_title :: string
  v_type :: string
  v_author :: string
  v_timestamp :: string
  v_seconds :: nat
  v_videoId :: "string option"
  v_views :: "nat option"

text \<open>The reason a task is rejected with: the two fields \<open>search\<close> reads.\<close>

record failure =
  f_message :: string
  f_code :: "string option"

text \<open>The settled state of a task, as \<open>reflect()\<close> exposes it.\<close>

datatype 'a outcome = Fulfilled 'a | Rejected failure

fun isRejected :: "'a outcome \<Rightarrow> bool" where
  "isRejected (Rejected e) = True"
| "isRejected (Fulfilled v) = False"

text \<open>What the worker of the queue returns for one query variant (line 390).\<close>

record source =
  s_xFilters :: "string list"
  s_highestViews :: nat
  s_results :: "yt_video list"

text \<open>Line 383.\<close>

definition keeps :: "text_utils \<Rightarrow> string list \<Rightarrow> yt_video \<Rightarrow> bool" where
  "keeps tu strippedMeta item =
     gt (getWeight tu strippedMeta
           (stripText tu (split_on CHR '' '' (v_title item) @ [v_author item])))
        (Num 70)"

text \<open>
  Lines 381 to 389, for one video: a kept video is pushed with its view count
  defaulted to \<open>0\<close> (\<open>item.views = item.views || 0\<close>), and the maximum is updated.
\<close>

definition worker_step :: "text_utils \<Rightarrow> string list \<Rightarrow> source \<Rightarrow> yt_video \<Rightarrow> source" where
  "worker_step tu strippedMeta final item =
     (if keeps tu strippedMeta item then
        (let views = (case v_views item of None \<Rightarrow> 0 | Some v \<Rightarrow> v)
         in final\<lparr>s_results := s_results final @ [item\<lparr>v_views := Some views\<rparr>],
                  s_highestViews := max (s_highestViews final) views\<rparr>)
      else final)"

text \<open>
  Lines 373 to 392. The keyword search is the parameter \<open>ytSearch\<close>: the query string
  it is sent, and how the call settles. A rejected call rejects the task.
\<close>

definition worker ::
  "text_utils \<Rightarrow> (string \<Rightarrow> yt_video list outcome) \<Rightarrow> string list \<Rightarrow> string list
     \<Rightarrow> source outcome" where
  "worker tu ytSearch strippedMeta xFilters =
     (case ytSearch (join_sp (strippedMeta @ xFilters)) of
        Rejected e \<Rightarrow> Rejected e
      | Fulfilled videos \<Rightarrow>
          Fulfilled (foldl (worker_step tu strippedMeta)
            \<lparr>s_xFilters = xFilters, s_highestViews = 0, s_results = []\<rparr> videos))"

text \<open>The four variants pushed as one batch (lines 415 to 420), in submission order.\<close>

definition variants :: "string list list" where
  "variants = [[''Official Audio''], [''Audio''], [''Lyrics''], []]"

text \<open>
  Modelled from the spec: \<open>async_queue.js\<close> is not in the file. \<open>push\<close> returns, for
  a batch, one outcome per task in submission order; a task that fails does not
  cancel or fail the others.
\<close>

definition searchQueue_push ::
  "(string list \<Rightarrow> string list \<Rightarrow> source outcome) \<Rightarrow> (string list \<times> string list) list
     \<Rightarrow> source outcome list" where
  "searchQueue_push work batch = map (\<lambda>(strippedMeta, xFilters). work strippedMeta xFilters) batch"

record yt_candidate =
  y_title :: string
  y_type :: string
  y_author :: string
  y_duration :: string
  y_duration_ms :: number
  y_videoId :: string
  y_xFilters :: "string list"
  y_accuracy :: number

text \<open>\<open>item.views\<close> read as a number: \<open>undefined\<close> converts to NaN.\<close>

fun views_number :: "nat option \<Rightarrow> number" where
  "views_number None = NaN"
| "views_number (Some v) = Num (real v)"

definition duration_ms_B :: "yt_video \<Rightarrow> number" where
  "duration_ms_B item = Num (real (v_seconds item) * 1000)"

text \<open>Lines 429 to 441.\<close>

definition calculateAccuracyFor_B ::
  "text_utils \<Rightarrow> jsval \<Rightarrow> string list \<Rightarrow> number \<Rightarrow> yt_video \<Rightarrow> number" where
  "calculateAccuracyFor_B tu duration strippedArtists highestViews item =
     (let accuracy = Num 0;
          accuracy = nadd accuracy
            (nsub (Num 100) (nmul (duration_delta duration (duration_ms_B item)) (Num 100)));
          accuracy = nadd accuracy
            (nmul (nmul (nsub (Num 100) accuracy) (ndiv (Num 80) (Num 100)))
                  (ndiv (views_number (v_views item)) highestViews));
          accuracy = nadd accuracy
            (if ge (getWeight tu strippedArtists (stripText tu [v_author item])) (Num 80)
             then nmul (ndiv (Num 60) (Num 100)) (nsub (Num 100) accuracy)
             else Num 0)
      in accuracy)"

text \<open>
  Line 427: a rejected task is replaced by the empty object \<open>{}\<close>, here \<open>None\<close>.
  Its \<open>highestViews\<close> is \<open>undefined\<close>, which \<open>Math.max\<close> converts to NaN (line 428),
  and its \<open>results\<close> is not an array (line 444).
\<close>

fun settle :: "source outcome \<Rightarrow> source option" where
  "settle (Fulfilled v) = Some v"
| "settle (Rejected e) = None"

fun highestViews_of :: "source option \<Rightarrow> number" where
  "highestViews_of None = NaN"
| "highestViews_of (Some src) = Num (real (s_highestViews src))"

text \<open>Lines 445 to 459, for one item of one source.\<close>

definition add_item ::
  "(yt_video \<Rightarrow> number) \<Rightarrow> string list \<Rightarrow> (string \<times> yt_candidate) list \<Rightarrow> yt_video
     \<Rightarrow> (string \<times> yt_candidate) list" where
  "add_item accuracyFor xFilters final item =
     (case v_videoId item of
        None \<Rightarrow> final
      | Some videoId \<Rightarrow>
          if \<not> has_key videoId final then
            final @ [(videoId,
              \<lparr>y_title = v_title item, y_type = v_type item, y_author = v_author item,
               y_duration = v_timestamp item, y_duration_ms = duration_ms_B item,
               y_videoId = videoId, y_xFilters = xFilters,
               y_accuracy = accuracyFor item\<rparr>)]
          else final)"

text \<open>Lines 443 to 460, for one source.\<close>

definition add_source ::
  "(yt_video \<Rightarrow> number) \<Rightarrow> (string \<times> yt_candidate) list \<Rightarrow> source option
     \<Rightarrow> (string \<times> yt_candidate) list" where
  "add_source accuracyFor final src =
     (case src of
        None \<Rightarrow> final
      | Some s \<Rightarrow> foldl (add_item accuracyFor (s_xFilters s)) final (s_results s))"

text \<open>Lines 423 to 426: the error thrown when every task was rejected.\<close>

definition rethrow :: "failure \<Rightarrow> error" where
  "rethrow err =
     YouTubeSearchError \<lparr>message = f_message err, statusCode = None,
       status = (case f_code err of None \<Rightarrow> None | Some c \<Rightarrow> if c \<noteq> [] then Some c else None),
       body = None\<rparr>"

text \<open>Lines 428 to 460: the maximum over the batch, and the dictionary \<open>final\<close>.\<close>

definition collect ::
  "text_utils \<Rightarrow> jsval \<Rightarrow> string list \<Rightarrow> source option list \<Rightarrow> (string \<times> yt_candidate) list" where
  "collect tu duration strippedArtists searchResults =
     (let highestViews = Math_max (map highestViews_of searchResults)
      in foldl (add_source (calculateAccuracyFor_B tu duration strippedArtists highestViews))
           [] searchResults)"

text \<open>Lines 411 to 422: the outcomes of the four tasks.\<close>

definition strippedMeta_B :: "text_utils \<Rightarrow> search_args \<Rightarrow> string list" where
  "strippedMeta_B tu q =
     stripText tu (split_on CHR '' '' (q_track q)) @ stripText tu (q_artists q)"

definition YouTube_outcomes ::
  "text_utils \<Rightarrow> (string \<Rightarrow> yt_video list outcome) \<Rightarrow> search_args \<Rightarrow> source outcome list" where
  "YouTube_outcomes tu ytSearch q =
     searchQueue_push (worker tu ytSearch)
       (map (\<lambda>xFilters. (strippedMeta_B tu q, xFilters)) variants)"

definition YouTube_final ::
  "text_utils \<Rightarrow> (string \<Rightarrow> yt_video list outcome) \<Rightarrow> search_args
     \<Rightarrow> (string \<times> yt_candidate) list" where
  "YouTube_final tu ytSearch q =
     collect tu (q_duration q) (stripText tu (q_artists q))
       (map settle (YouTube_outcomes tu ytSearch q))"

text \<open>
  Lines 408 to 461. When every task was rejected the last outcome is a rejection; the
  other branch of the \<open>case\<close> on it cannot be reached.
\<close>

definition YouTube_search_args ::
  "text_utils \<Rightarrow> (string \<Rightarrow> yt_video list outcome) \<Rightarrow> search_args
     \<Rightarrow> error + yt_candidate list" where
  "YouTube_search_args tu ytSearch q =
     (let searchResults = YouTube_outcomes tu ytSearch q
      in if list_all isRejected searchResults then
           (case last searchResults of
              Rejected err \<Rightarrow> Inl (rethrow err)
            | Fulfilled v \<Rightarrow> Inl TypeError)
         else
           Inr (Array_sort (by_accuracy y_accuracy)
                  (Object_values (YouTube_final tu ytSearch q))))"

definition YouTube_search ::
  "text_utils \<Rightarrow> (string \<Rightarrow> yt_video list outcome)
     \<Rightarrow> jsval \<Rightarrow> jsval \<Rightarrow> jsval \<Rightarrow> jsval \<Rightarrow> error + yt_candidate list" where
  "YouTube_search tu ytSearch ar tr al du =
     (case getSearchArgs ar tr al du of
        Inl e \<Rightarrow> Inl e
      | Inr q \<Rightarrow> YouTube_search_args tu ytSearch q)"

section \<open>Backend A: the items \<open>#search\<close> builds\<close>

text \<open>
  Lines 186 to 256 build one item from one entry of a section. The entry is read
  through \<open>walk\<close> only. Modelled from the spec: \<open>walkr.js\<close> is not in the file; \<open>walk\<close>
  returns the value at a path, or an absence marker (here \<open>None\<close>) when the path does
  not exist, and never throws. An entry is therefore the four things the code walks
  to: the text runs of its first two columns, the video identifier of its play button,
  and its browse identifier. A run has a text and, when it has a
  \<open>navigationEndpoint\<close>, what \<open>walk\<close> finds as its browse identifier.
\<close>

record run =
  t_text :: string
  t_nav :: "string option option"

record content =
  col0 :: "run list option"
  col1 :: "run list option"
  play_videoId :: "string option"
  content_browseId :: "string option"

text \<open>The separator \<open>' \<bullet> '\<close> of line 204: a space, the three bytes of U+2022, a space.\<close>

definition separator :: string where
  "separator = [CHR '' '', CHR 0xE2, CHR 0x80, CHR 0xA2, CHR '' '']"

text \<open>\<open>getItemText(item, index)\<close>: reading \<open>[0].text\<close> of no runs raises.\<close>

definition getItemText :: "run list option \<Rightarrow> error + string" where
  "getItemText runs =
     (case runs of
        None \<Rightarrow> Inl TypeError
      | Some [] \<Rightarrow> Inl TypeError
      | Some (r # rs) \<Rightarrow> Inr (t_text r))"

text \<open>\<open>runs[runs.length - 1].text\<close>.\<close>

definition last_text :: "run list \<Rightarrow> error + string" where
  "last_text runs = (if runs = [] then Inl TypeError else Inr (t_text (last runs)))"

text \<open>Lines 199 and 200. \<open>toLowerCase\<close> is taken on ASCII letters.\<close>

definition item_type :: "string option \<Rightarrow> content \<Rightarrow> error + string" where
  "item_type layerName c =
     (if layerName = Some ''Songs'' then Inr ''song''
      else case getItemText (col1 c) of
             Inl e \<Rightarrow> Inl e
           | Inr t \<Rightarrow> Inr (if map lower t = ''single'' then ''album'' else map lower t))"

text \<open>
  Lines 214 to 221: a reference whose identifier starts with \<open>UC\<close> is an artist, any
  other one replaces the album; \<open>startsWith\<close> on an absent identifier raises.
\<close>

fun references :: "run list \<Rightarrow> nav list \<Rightarrow> nav option \<Rightarrow> error + nav list \<times> nav option" where
  "references [] ars al = Inr (ars, al)"
| "references (r # rs) ars al =
     (case t_nav r of
        None \<Rightarrow> references rs ars al
      | Some None \<Rightarrow> Inl TypeError
      | Some (Some i) \<Rightarrow>
          if take 2 i = ''UC''
          then references rs (ars @ [\<lparr>n_name = t_text r, n_id = i\<rparr>]) al
          else references rs ars (Some \<lparr>n_name = t_text r, n_id = i\<rparr>))"

definition empty_item :: ytm_item where
  "empty_item = \<lparr>i_type = None, i_title = None, i_artists = None, i_album = None,
     i_videoId = None, i_duration = None\<rparr>"

text \<open>
  Lines 197 to 255, for the fields \<open>search\<close> reads. A song or a video always gets
  the key \<open>videoId\<close> (line 225), with whatever \<open>walk\<close> returned. A video with a
  single run gets an undefined duration, which is \<open>None\<close> here as the absent key is:
  \<open>search\<close> raises on both.
\<close>

definition build_item :: "string option \<Rightarrow> content \<Rightarrow> error + ytm_item" where
  "build_item layerName c =
     (case item_type layerName c of
        Inl e \<Rightarrow> Inl e
      | Inr type \<Rightarrow>
     (case col1 c of
        None \<Rightarrow> Inl TypeError
      | Some all_runs \<Rightarrow>
     (let runs = filter (\<lambda>r. t_text r \<noteq> separator) all_runs in
      if type = ''song'' \<or> type = ''video'' then
        (case getItemText (col0 c) of
           Inl e \<Rightarrow> Inl e
         | Inr title \<Rightarrow>
        (case references runs [] None of
           Inl e \<Rightarrow> Inl e
         | Inr (ars, al) \<Rightarrow>
             if runs = [] then Inl TypeError
             else if type = ''song'' then
               Inr \<lparr>i_type = Some type, i_title = Some title, i_artists = Some ars,
                    i_album = Some al, i_videoId = Some (play_videoId c),
                    i_duration = Some (t_text (last runs))\<rparr>
             else
               Inr \<lparr>i_type = Some type, i_title = Some title, i_artists = Some ars,
                    i_album = None, i_videoId = Some (play_videoId c),
                    i_duration = (if length runs < 2 then None
                                  else Some (t_text (last runs)))\<rparr>))
      else if type = ''album'' \<or> type = ''playlist'' then
        (case getItemText (col0 c) of
           Inl e \<Rightarrow> Inl e
         | Inr title \<Rightarrow>
        (case references runs [] None of
           Inl e \<Rightarrow> Inl e
         | Inr (ars, al) \<Rightarrow>
             if content_browseId c = None \<or> content_browseId c = Some [] then Inr empty_item
             else if runs = [] then Inl TypeError
             else if type = ''album'' then
               Inr \<lparr>i_type = Some (map lower (t_text (hd runs))), i_title = Some title,
                    i_artists = Some ars, i_album = None, i_videoId = None,
                    i_duration = None\<rparr>
             else
               Inr \<lparr>i_type = Some type, i_title = Some title, i_artists = None,
                    i_album = None, i_videoId = None, i_duration = None\<rparr>))
      else if type = ''artist'' then
        (if content_browseId c = None \<or> content_browseId c = Some [] then Inr empty_item
         else case getItemText (col0 c) of
                Inl e \<Rightarrow> Inl e
              | Inr artist \<Rightarrow>
                  if runs = [] then Inl TypeError
                  else Inr (empty_item\<lparr>i_type := Some type\<rparr>))
      else Inr empty_item)))"

section \<open>The dictionary \<open>final\<close> as a sequence of stores\<close>

text \<open>
  Both backends fill the dictionary the same way: an entry is stored under its key
  unless \<open>key in final\<close> already holds. \<open>store\<close> is that step, and \<open>entry_of\<close> is the
  entry an item of Backend A asks to store: none when its weight is not above \<open>65\<close>,
  when it has no \<open>videoId\<close> key, or when its accuracy is not above \<open>80\<close>.
\<close>

definition store :: "(string \<times> 'a) list \<Rightarrow> string \<times> 'a \<Rightarrow> (string \<times> 'a) list" where
  "store final e = (if has_key (fst e) final then final else final @ [e])"

definition entry_of ::
  "(string \<Rightarrow> number) \<Rightarrow> jsval \<Rightarrow> weighted \<Rightarrow> (string \<times> candidate) option" where
  "entry_of ToNumber duration w =
     (case i_videoId (w_item w) of
        None \<Rightarrow> None
      | Some videoId \<Rightarrow>
          (case i_duration (w_item w) of
             None \<Rightarrow> None
           | Some d \<Rightarrow>
               if gt (w_weight w) (Num 65)
                  \<and> gt (c_accuracy (cleanItem_of ToNumber duration w d videoId)) (Num 80)
               then Some (key_of videoId, cleanItem_of ToNumber duration w d videoId)
               else None))"

text \<open>The entry a video of Backend B asks to store: none when it has no \<open>videoId\<close> key.\<close>

definition entry_of_video ::
  "(yt_video \<Rightarrow> number) \<Rightarrow> string list \<Rightarrow> yt_video \<Rightarrow> (string \<times> yt_candidate) option" where
  "entry_of_video accuracyFor xFilters item =
     (case v_videoId item of
        None \<Rightarrow> None
      | Some videoId \<Rightarrow>
          Some (videoId,
            \<lparr>y_title = v_title item, y_type = v_type item, y_author = v_author item,
             y_duration = v_timestamp item, y_duration_ms = duration_ms_B item,
             y_videoId = videoId, y_xFilters = xFilters,
             y_accuracy = accuracyFor item\<rparr>))"

text \<open>The entries of the sources of a batch, in the order the loops of lines 443 to 460
  visit them.\<close>

definition entries_of_source ::
  "(yt_video \<Rightarrow> number) \<Rightarrow> source option \<Rightarrow> (string \<times> yt_candidate) list" where
  "entries_of_source accuracyFor src =
     (case src of
        None \<Rightarrow> []
      | Some s \<Rightarrow> List.map_filter (entry_of_video accuracyFor (s_xFilters s)) (s_results s))"

text \<open>The entries of a whole batch of Backend B, with the accuracy function of line 429
  for the maximum of the batch.\<close>

definition YouTube_entries ::
  "text_utils \<Rightarrow> (string \<Rightarrow> yt_video list outcome) \<Rightarrow> search_args
     \<Rightarrow> (string \<times> yt_candidate) list" where
  "YouTube_entries tu ytSearch q =
     (let srcs = map settle (YouTube_outcomes tu ytSearch q)
      in concat (map (entries_of_source
           (calculateAccuracyFor_B tu (q_duration q) (stripText tu (q_artists q))
              (Math_max (map highestViews_of srcs)))) srcs))"

section \<open>A failed variant read as an empty result\<close>

text \<open>
  \<open>absorb\<close> is the keyword search in which every rejected call returns no video
  instead, and \<open>without_accuracy\<close> forgets the accuracy of a candidate.
\<close>

definition absorb :: "(string \<Rightarrow> yt_video list outcome) \<Rightarrow> string \<Rightarrow> yt_video list outcome" where
  "absorb ytSearch query =
     (case ytSearch query of
        Rejected e \<Rightarrow> Fulfilled []
      | Fulfilled videos \<Rightarrow> Fulfilled videos)"

definition without_accuracy :: "yt_candidate \<Rightarrow> yt_candidate" where
  "without_accuracy c = c\<lparr>y_accuracy := NaN\<rparr>"

section \<open>Expected durations and the maximum of a batch\<close>

text \<open>
  The expected durations of the data model: none (any falsy value, \<open>0\<close> and NaN
  included) or a finite number of milliseconds that is not negative.
\<close>

fun usual_duration :: "jsval \<Rightarrow> bool" where
  "usual_duration (Number (Num r)) = (0 \<le> r)"
| "usual_duration (Number NaN) = True"
| "usual_duration (Number n) = False"
| "usual_duration v = (\<not> truthy v)"


section \<open>The accuracy of Backend A in the words of the specification\<close>

text \<open>
  Section 4.5: the penalty is \<open>(|expected - actual| / expected) * 100\<close> when an
  expected duration was supplied and \<open>50\<close> otherwise; the accuracy is the weight minus
  the penalty, raised toward \<open>100\<close> by a share of the remaining gap: a half for a
  song, a quarter for a video, a twentieth for anything else.
\<close>

definition spec_duration_penalty :: "jsval \<Rightarrow> number \<Rightarrow> number" where
  "spec_duration_penalty expected actual =
     (if truthy expected
      then nmul (ndiv (Math_abs (nsub (the_number expected) actual)) (the_number expected))
             (Num 100)
      else Num 50)"

definition spec_boost :: "string option \<Rightarrow> real" where
  "spec_boost t = (if t = Some ''song'' then 1 / 2 else if t = Some ''video'' then 1 / 4 else 1 / 20)"

definition spec_accuracy_A :: "jsval \<Rightarrow> number \<Rightarrow> string option \<Rightarrow> number \<Rightarrow> number" where
  "spec_accuracy_A expected actual t weight =
     (let base = nsub weight (spec_duration_penalty expected actual)
      in nadd base (nmul (Num (spec_boost t)) (nsub (Num 100) base)))"

section \<open>Stand-ins used to run the model\<close>

text \<open>
  Modelled from the spec: \<open>text_utils.js\<close> is not in the file. \<open>stripText\<close> lower-cases,
  removes punctuation, splits into words, drops empty tokens and repeated ones;
  \<open>getWeight\<close> is a percentage, \<open>100\<close> for the same tokens, and lower the more the two
  token sets differ relative to their union. Here: ASCII letters and digits are kept,
  and the weight is the share of the union that the two sets have in common.
\<close>

definition is_alnum :: "char \<Rightarrow> bool" where
  "is_alnum c = (is_digit c \<or> (97 \<le> (of_char c :: nat) \<and> (of_char c :: nat) \<le> 122))"

definition spec_stripText :: "string list \<Rightarrow> string list" where
  "spec_stripText xs =
     remdups (filter (\<lambda>w. w \<noteq> [])
       (concat (map (\<lambda>x. map (filter is_alnum) (split_on CHR '' '' (map lower x))) xs)))"

definition spec_getWeight :: "string list \<Rightarrow> string list \<Rightarrow> number" where
  "spec_getWeight expected actual =
     ndiv (Num (100 * real (length (filter (\<lambda>t. t \<in> set actual) (remdups expected)))))
          (Num (real (length (remdups (expected @ actual)))))"

definition spec_text_utils :: text_utils where
  "spec_text_utils = \<lparr>stripText = spec_stripText, getWeight = spec_getWeight\<rparr>"

text \<open>
  A conversion for the strings of decimal digits, where the language's conversion is
  the decimal value; every other string is NaN here.
\<close>

definition decimal_ToNumber :: "string \<Rightarrow> number" where
  "decimal_ToNumber s =
     (if s \<noteq> [] \<and> list_all is_digit s then Num (real (decimal_value s)) else NaN)"

section \<open>Concrete runs\<close>

text \<open>
  The query of scenario 1: the artist Daft Punk, the track One More Time, an empty
  album, and an expected duration of 320000 ms.
\<close>

definition song_item :: "string \<Rightarrow> string option \<Rightarrow> string \<Rightarrow> ytm_item" where
  "song_item title videoId d =
     \<lparr>i_type = Some ''song'', i_title = Some title,
      i_artists = Some [\<lparr>n_name = ''Daft Punk'', n_id = ''UCdaftpunk''\<rparr>],
      i_album = Some None, i_videoId = Some videoId, i_duration = Some d\<rparr>"

text \<open>An entry of the Songs section as the response lists it: the title in the first
  column; the artist, the separator and the duration in the second.\<close>

definition song_content :: "string \<Rightarrow> string option \<Rightarrow> string \<Rightarrow> content" where
  "song_content title videoId d =
     \<lparr>col0 = Some [\<lparr>t_text = title, t_nav = None\<rparr>],
      col1 = Some [\<lparr>t_text = ''Daft Punk'', t_nav = Some (Some ''UCdaftpunk'')\<rparr>,
                   \<lparr>t_text = separator, t_nav = None\<rparr>,
                   \<lparr>t_text = d, t_nav = None\<rparr>],
      play_videoId = videoId, content_browseId = None\<rparr>"

definition songs_response :: "ytm_item list \<Rightarrow> string \<Rightarrow> error + ytm_results" where
  "songs_response items query = Inr \<lparr>r_top = None, r_songs = Some items, r_videos = None\<rparr>"

definition run_A :: "ytm_item list \<Rightarrow> error + candidate list" where
  "run_A items =
     YouTubeMusic_search spec_text_utils decimal_ToNumber (songs_response items)
       (Array [String ''Daft Punk'']) (String ''One More Time'') (String [])
       (Number (Num 320000))"

definition song_candidate :: "string \<Rightarrow> string option \<Rightarrow> string \<Rightarrow> number \<Rightarrow> number \<Rightarrow> candidate" where
  "song_candidate title videoId d ms accuracy =
     \<lparr>c_title = Some title, c_type = Some ''song'',
      c_author = Some [\<lparr>n_name = ''Daft Punk'', n_id = ''UCdaftpunk''\<rparr>],
      c_duration = d, c_duration_ms = ms, c_videoId = videoId, c_accuracy = accuracy\<rparr>"

text \<open>
  Runs of Backend B for the same query. The keyword search answers each query string
  from a table; a query that is not in the table is rejected, with a reason that names
  the query.
\<close>

definition video_item :: "string \<Rightarrow> string \<Rightarrow> string \<Rightarrow> nat \<Rightarrow> nat option \<Rightarrow> yt_video" where
  "video_item title videoId timestamp seconds views =
     \<lparr>v_title = title, v_type = ''video'', v_author = ''Daft Punk'', v_timestamp = timestamp,
      v_seconds = seconds, v_videoId = Some videoId, v_views = views\<rparr>"

definition answers :: "(string \<times> yt_video list) list \<Rightarrow> string \<Rightarrow> yt_video list outcome" where
  "answers table query =
     (case map_of table query of
        Some videos \<Rightarrow> Fulfilled videos
      | None \<Rightarrow> Rejected \<lparr>f_message = ''no answer: '' @ query, f_code = Some ''ETIMEDOUT''\<rparr>)"

definition run_B :: "(string \<times> yt_video list) list \<Rightarrow> error + yt_candidate list" where
  "run_B table =
     YouTube_search spec_text_utils (answers table)
       (Array [String ''Daft Punk'']) (String ''One More Time'') (String [])
       (Number (Num 320000))"

definition video_candidate ::
  "string \<Rightarrow> string \<Rightarrow> string \<Rightarrow> number \<Rightarrow> string list \<Rightarrow> number \<Rightarrow> yt_candidate" where
  "video_candidate title videoId timestamp ms xFilters accuracy =
     \<lparr>y_title = title, y_type = ''video'', y_author = ''Daft Punk'', y_duration = timestamp,
      y_duration_ms = ms, y_videoId = videoId, y_xFilters = xFilters, y_accuracy = accuracy\<rparr>"

text \<open>The four query strings of the run, and a table in which every variant succeeds,
  the first three with no video.\<close>

definition plain_query :: string where
  "plain_query = ''one more time daft punk''"

definition all_succeed :: "yt_video list \<Rightarrow> (string \<times> yt_video list) list" where
  "all_succeed videos =
     [(plain_query @ '' Official Audio'', []), (plain_query @ '' Audio'', []),
      (plain_query @ '' Lyrics'', []), (plain_query, videos)]"


section \<open>Numbers, sorting and objects\<close>

lemma nadd_zero [simp]: "nadd (Num 0) x = x"
  by (cases x) simp_all

lemma nmul_Num [simp]: "nmul (Num a) (Num b) = Num (a * b)"
  by (simp add: nmul_def)

lemma nmul_NaN [simp]: "nmul NaN b = NaN" "nmul a NaN = NaN"
  by (simp_all add: nmul_def split: number.splits)

lemma ndiv_Num [simp]: "b \<noteq> 0 \<Longrightarrow> ndiv (Num a) (Num b) = Num (a / b)"
  by (simp add: ndiv_def)

lemma ndiv_NaN [simp]: "ndiv NaN b = NaN" "ndiv a NaN = NaN"
  by (simp_all add: ndiv_def split: number.splits)

lemma ndiv_zero_zero [simp]: "ndiv (Num 0) (Num 0) = NaN"
  by (simp add: ndiv_def)

lemma nadd_NaN [simp]: "nadd a NaN = NaN"
  by (cases a) simp_all

lemma nsub_Num [simp]: "nsub (Num a) (Num b) = Num (a - b)"
  by (simp add: nsub_def)

lemma nsub_NaN [simp]: "nsub NaN b = NaN" "nsub a NaN = NaN"
  by (simp_all add: nsub_def)

lemma gt_asym: "gt a b \<Longrightarrow> \<not> gt b a"
  by (cases a; cases b) simp_all

lemma gt_irrefl [simp]: "\<not> gt a a"
  by (cases a) simp_all

lemma gt_below: "gt p e \<Longrightarrow> \<not> gt x e \<Longrightarrow> \<not> gt x p"
  by (cases p; cases e; cases x) simp_all

lemma mset_insert_by: "mset (insert_by cmp p es) = add_mset p (mset es)"
  by (induction es) simp_all

lemma set_insert_by: "set (insert_by cmp p es) = insert p (set es)"
  by (induction es) auto

lemma Array_sort_Nil [simp]: "Array_sort cmp [] = []"
  by (simp add: Array_sort_def)

lemma Array_sort_snoc: "Array_sort cmp (xs @ [p]) = insert_by cmp p (Array_sort cmp xs)"
  by (simp add: Array_sort_def)

lemma mset_Array_sort: "mset (Array_sort cmp xs) = mset xs"
  by (induction xs rule: rev_induct) (simp_all add: Array_sort_snoc mset_insert_by)

lemma set_Array_sort: "set (Array_sort cmp xs) = set xs"
  by (metis mset_Array_sort set_mset_mset)

lemma by_accuracy_neg [simp]: "(by_accuracy acc a b < 0) = gt (acc a) (acc b)"
  by (simp add: by_accuracy_def)

lemma descending_insert_by:
  "descending acc es \<Longrightarrow> descending acc (insert_by (by_accuracy acc) p es)"
proof (induction es)
  case Nil
  then show ?case by (simp add: descending_def)
next
  case (Cons e es)
  show ?case
  proof (cases "gt (acc p) (acc e)")
    case True
    have "\<not> gt (acc x) (acc p)" if "x \<in> set (e # es)" for x
    proof -
      have "\<not> gt (acc x) (acc e)"
        using Cons.prems that by (auto simp: descending_def)
      with True show ?thesis by (rule gt_below)
    qed
    with True Cons.prems show ?thesis
      by (simp add: descending_def)
  next
    case False
    have "descending acc (insert_by (by_accuracy acc) p es)"
      using Cons by (simp add: descending_def)
    with False Cons.prems show ?thesis
      by (auto simp: descending_def set_insert_by)
  qed
qed

lemma descending_Array_sort: "descending acc (Array_sort (by_accuracy acc) xs)"
  by (induction xs rule: rev_induct)
     (simp_all add: Array_sort_snoc descending_insert_by, simp add: descending_def)

lemma stable_insert_by:
  "descending acc es \<Longrightarrow>
   filter (\<lambda>c. acc c = n) (insert_by (by_accuracy acc) p es) = filter (\<lambda>c. acc c = n) (es @ [p])"
proof (induction es)
  case Nil
  then show ?case by simp
next
  case (Cons e es)
  show ?case
  proof (cases "gt (acc p) (acc e)")
    case True
    have "acc x \<noteq> acc p" if "x \<in> set (e # es)" for x
    proof
      assume "acc x = acc p"
      moreover have "\<not> gt (acc x) (acc e)"
        using Cons.prems that by (auto simp: descending_def)
      ultimately show False using True by simp
    qed
    then have "acc p = n \<Longrightarrow> filter (\<lambda>c. acc c = n) (e # es) = []"
      by (auto simp: filter_empty_conv)
    with True show ?thesis
      by auto
  next
    case False
    have "descending acc es" using Cons.prems by (simp add: descending_def)
    with False Cons.IH show ?thesis
      by simp
  qed
qed

lemma stable_Array_sort:
  "filter (\<lambda>c. acc c = n) (Array_sort (by_accuracy acc) xs) = filter (\<lambda>c. acc c = n) xs"
  by (induction xs rule: rev_induct)
     (simp_all add: Array_sort_snoc stable_insert_by descending_Array_sort)

lemma Object_values_plain:
  "\<forall>e \<in> set obj. \<not> is_array_index (fst e) \<Longrightarrow> Object_values obj = map snd obj"
  by (simp add: Object_values_def filter_empty_conv)

lemma mset_Object_values: "mset (Object_values obj) = mset (map snd obj)"
proof -
  have "mset (Object_values obj)
      = image_mset snd (filter_mset (\<lambda>e. is_array_index (fst e)) (mset obj))
        + image_mset snd (filter_mset (\<lambda>e. \<not> is_array_index (fst e)) (mset obj))"
    by (simp add: Object_values_def)
  also have "\<dots> = image_mset snd (mset obj)"
    by (simp flip: image_mset_union)
  finally show ?thesis by simp
qed

lemma set_Object_values: "set (Object_values obj) = snd ` set obj"
  by (metis mset_Object_values set_mset_mset set_map)

section \<open>Storing into the dictionary\<close>

lemma has_key_append:
  "has_key k (final @ es) = (has_key k final \<or> k \<in> fst ` set es)"
  by (auto simp: has_key_def)

lemma store_all_keys:
  "fst ` set (foldl store final es) \<subseteq> fst ` set final \<union> fst ` set es"
proof (induction es arbitrary: final)
  case Nil
  then show ?case by simp
next
  case (Cons e es)
  have "fst ` set (store final e) \<subseteq> fst ` set final \<union> {fst e}"
    by (auto simp: store_def)
  with Cons [of "store final e"] show ?case by auto
qed

lemma store_all_set:
  "set (foldl store final es) \<subseteq> set final \<union> set es"
proof (induction es arbitrary: final)
  case Nil
  then show ?case by simp
next
  case (Cons e es)
  have "set (store final e) \<subseteq> set final \<union> {e}"
    by (auto simp: store_def)
  with Cons [of "store final e"] show ?case by auto
qed

lemma store_distinct:
  "distinct (map fst final) \<Longrightarrow> distinct (map fst (store final e))"
  by (auto simp: store_def has_key_def)

lemma store_all_distinct:
  "distinct (map fst final) \<Longrightarrow> distinct (map fst (foldl store final es))"
  by (induction es arbitrary: final) (simp_all add: store_distinct)

lemma store_key_new:
  "k \<in> fst ` set (store final e) \<Longrightarrow>
     k \<in> fst ` set final \<or> (k = fst e \<and> k \<notin> set Object_prototype_keys)"
  unfolding store_def has_key_def by (cases "k = fst e") (auto split: if_splits)

lemma store_all_key_new:
  "k \<in> fst ` set (foldl store final es) \<Longrightarrow>
     k \<in> fst ` set final \<or> k \<notin> set Object_prototype_keys"
proof (induction es arbitrary: final)
  case Nil
  then show ?case by simp
next
  case (Cons e es)
  from Cons.prems have "k \<in> fst ` set (foldl store (store final e) es)" by simp
  from Cons.IH [OF this] show ?case
    using store_key_new [of k final e] by blast
qed

lemma map_of_snoc:
  "map_of (final @ [e]) k =
     (case map_of final k of
        Some c \<Rightarrow> Some c
      | None \<Rightarrow> if k = fst e then Some (snd e) else None)"
  by (cases e) (simp add: map_add_def split: option.splits)

lemma map_of_store:
  "map_of (store final e) k =
     (case map_of final k of
        Some c \<Rightarrow> Some c
      | None \<Rightarrow> if k = fst e \<and> k \<notin> set Object_prototype_keys then Some (snd e) else None)"
proof (cases "has_key (fst e) final")
  case True
  then have "map_of final (fst e) = None \<Longrightarrow> fst e \<in> set Object_prototype_keys"
    by (auto simp: has_key_def map_of_eq_None_iff)
  with True show ?thesis
    by (auto simp: store_def split: option.splits)
next
  case False
  then have "k = fst e \<Longrightarrow> k \<notin> set Object_prototype_keys"
    by (simp add: has_key_def)
  with False show ?thesis
    by (auto simp: store_def map_of_snoc simp del: map_of_append split: option.splits)
qed

lemma map_of_store_all:
  "map_of (foldl store final es) k =
     (case map_of final k of
        Some c \<Rightarrow> Some c
      | None \<Rightarrow> if k \<in> set Object_prototype_keys then None else map_of es k)"
proof (induction es arbitrary: final)
  case Nil
  then show ?case
    by (auto split: option.splits)
next
  case (Cons e es)
  show ?case
    by (cases e) (auto simp: Cons.IH map_of_store split: option.splits)
qed

section \<open>Evaluating concrete runs\<close>

lemmas text_defs = spec_text_utils_def spec_stripText_def spec_getWeight_def lower_def
  is_alnum_def is_digit_def

lemmas number_defs = decimal_ToNumber_def decimal_value_def digit_value_def is_digit_def

lemmas shuffle_defs = shuffleArgs_def shuffle_track_def shuffle_album_def shuffle_artists_def
  js_or_def

lemmas run_A_defs = run_A_def songs_response_def song_item_def song_candidate_def
  YouTubeMusic_search_def YouTubeMusic_search_args_def YouTubeMusic_final_def
  getSearchArgs_def validateArgs_def shuffle_defs strippedMeta_A_def sections_def
  weigh_def album_words_def classify_step_def cleanItem_of_def calculateAccuracyFor_A_def
  duration_delta_def type_bump_def duration_ms_of_def has_key_def Object_prototype_keys_def
  Object_values_def is_array_index_def Array_sort_def by_accuracy_def Let_def

lemma run_A_scenario_1:
  "run_A [song_item ''One More Time'' (Some ''abc'') ''5:20'']
   = Inr [song_candidate ''One More Time'' (Some ''abc'') ''5:20'' (Num 320000) (Num 100)]"
  by (simp add: run_A_defs text_defs number_defs)

lemmas run_B_defs = run_B_def answers_def all_succeed_def plain_query_def video_item_def video_candidate_def
  YouTube_search_def YouTube_search_args_def YouTube_final_def YouTube_outcomes_def
  getSearchArgs_def validateArgs_def shuffle_defs strippedMeta_B_def variants_def
  searchQueue_push_def worker_def worker_step_def keeps_def collect_def add_source_def
  add_item_def calculateAccuracyFor_B_def duration_delta_def duration_ms_B_def Math_max_def
  rethrow_def has_key_def Object_prototype_keys_def Object_values_def is_array_index_def
  Array_sort_def by_accuracy_def Let_def

lemma run_B_duplicates:
  "run_B (all_succeed [video_item ''One More Time'' ''abc'' ''18:20'' 1100 (Some 10),
      video_item ''One More Time'' ''abc'' ''5:20'' 320 (Some 5),
      video_item ''One More Time'' ''xyz'' ''5:20'' 320 (Some 5)])
   = Inr [video_candidate ''One More Time'' ''xyz'' ''5:20'' (Num 320000) [] (Num 100),
          video_candidate ''One More Time'' ''abc'' ''18:20'' (Num 1100000) [] (Num (161 / 2))]"
  by (simp add: run_B_defs text_defs)

lemma run_A_later_duplicate:
  "run_A [song_item ''Intro'' (Some ''abc'') ''5:20'',
          song_item ''One More Time'' (Some ''abc'') ''5:20'']
   = Inr [song_candidate ''One More Time'' (Some ''abc'') ''5:20'' (Num 320000) (Num 100)]"
  by (simp add: run_A_defs text_defs number_defs)


lemma run_A_tie:
  "run_A [song_item ''One More Time'' (Some ''xyz'') ''5:24'',
          song_item ''One More Time'' (Some ''abc'') ''5:20'',
          song_item ''One More Time'' (Some ''def'') ''5:24'']
   = Inr [song_candidate ''One More Time'' (Some ''abc'') ''5:20'' (Num 320000) (Num 100),
          song_candidate ''One More Time'' (Some ''xyz'') ''5:24'' (Num 324000) (Num (795 / 8)),
          song_candidate ''One More Time'' (Some ''def'') ''5:24'' (Num 324000) (Num (795 / 8))]"
  by (simp add: run_A_defs text_defs number_defs)

lemma final_A_tie:
  "YouTubeMusic_final spec_text_utils decimal_ToNumber
     (songs_response [song_item ''One More Time'' (Some ''xyz'') ''5:24'',
          song_item ''One More Time'' (Some ''abc'') ''5:20'',
          song_item ''One More Time'' (Some ''def'') ''5:24''])
     \<lparr>q_artists = [''Daft Punk''], q_track = ''One More Time'', q_album = [],
        q_duration = Number (Num 320000)\<rparr>
   = Inr [(''xyz'', song_candidate ''One More Time'' (Some ''xyz'') ''5:24'' (Num 324000)
             (Num (795 / 8))),
          (''abc'', song_candidate ''One More Time'' (Some ''abc'') ''5:20'' (Num 320000)
             (Num 100)),
          (''def'', song_candidate ''One More Time'' (Some ''def'') ''5:24'' (Num 324000)
             (Num (795 / 8)))]"
  by (simp add: run_A_defs text_defs number_defs)

lemma run_B_tie:
  "run_B (all_succeed [video_item ''One More Time'' ''xyz'' ''5:24'' 324 (Some 10),
      video_item ''One More Time'' ''abc'' ''5:20'' 320 (Some 10),
      video_item ''One More Time'' ''def'' ''5:24'' 324 (Some 10)])
   = Inr [video_candidate ''One More Time'' ''abc'' ''5:20'' (Num 320000) [] (Num 100),
          video_candidate ''One More Time'' ''xyz'' ''5:24'' (Num 324000) [] (Num (999 / 10)),
          video_candidate ''One More Time'' ''def'' ''5:24'' (Num 324000) [] (Num (999 / 10))]"
  by (simp add: run_B_defs text_defs)

lemma final_B_tie:
  "YouTube_final spec_text_utils
     (answers (all_succeed [video_item ''One More Time'' ''xyz'' ''5:24'' 324 (Some 10),
        video_item ''One More Time'' ''abc'' ''5:20'' 320 (Some 10),
        video_item ''One More Time'' ''def'' ''5:24'' 324 (Some 10)]))
     \<lparr>q_artists = [''Daft Punk''], q_track = ''One More Time'', q_album = [],
        q_duration = Number (Num 320000)\<rparr>
   = [(''xyz'', video_candidate ''One More Time'' ''xyz'' ''5:24'' (Num 324000) []
         (Num (999 / 10))),
      (''abc'', video_candidate ''One More Time'' ''abc'' ''5:20'' (Num 320000) [] (Num 100)),
      (''def'', video_candidate ''One More Time'' ''def'' ''5:24'' (Num 324000) []
         (Num (999 / 10)))]"
  by (simp add: run_B_defs text_defs)

text \<open>
  Scenario 3: the first three variants are rejected and the last one returns one
  matching video. The video is returned, and its accuracy is NaN: the maximum of line
  428 is taken over the \<open>highestViews\<close> of the three empty objects as well.
\<close>

lemma run_B_scenario_3:
  "run_B [(plain_query, [video_item ''One More Time'' ''abc'' ''5:20'' 320 (Some 10)])]
   = Inr [video_candidate ''One More Time'' ''abc'' ''5:20'' (Num 320000) [] NaN]"
  by (simp add: run_B_defs text_defs)

text \<open>Scenario 4: every variant is rejected; the error carries the reason of the last one.\<close>

lemma run_B_scenario_4:
  "run_B [] = Inl (YouTubeSearchError
     \<lparr>message = ''no answer: one more time daft punk'', statusCode = None,
      status = Some ''ETIMEDOUT'', body = None\<rparr>)"
  by (simp add: run_B_defs text_defs)


section \<open>Argument handling\<close>

lemma duration_delta_falsy: "\<not> truthy d \<Longrightarrow> duration_delta d x = Num (1 / 2)"
  by (simp add: duration_delta_def)

lemma calcA_falsy:
  "\<not> truthy d \<Longrightarrow> \<not> truthy d' \<Longrightarrow>
     calculateAccuracyFor_A d item w = calculateAccuracyFor_A d' item w"
  by (simp add: calculateAccuracyFor_A_def duration_delta_falsy)

lemma calcB_falsy:
  "\<not> truthy d \<Longrightarrow> \<not> truthy d' \<Longrightarrow>
     calculateAccuracyFor_B tu d sa hv = calculateAccuracyFor_B tu d' sa hv"
  by (rule ext) (simp add: calculateAccuracyFor_B_def duration_delta_falsy)

lemma cleanItem_of_falsy:
  "\<not> truthy d \<Longrightarrow> \<not> truthy d' \<Longrightarrow>
     cleanItem_of tn d w x v = cleanItem_of tn d' w x v"
  by (simp add: cleanItem_of_def Let_def calcA_falsy [of d d'])

lemma classify_step_falsy:
  "\<not> truthy d \<Longrightarrow> \<not> truthy d' \<Longrightarrow>
     classify_step tn d final w = classify_step tn d' final w"
  by (simp add: classify_step_def cleanItem_of_falsy [of d d'] cong: option.case_cong if_cong)

lemma classify_falsy:
  "\<not> truthy d \<Longrightarrow> \<not> truthy d' \<Longrightarrow> classify tn d final ws = classify tn d' final ws"
  by (induction ws arbitrary: final)
     (simp_all add: classify_step_falsy [of d d'] split: sum.splits)

lemma YouTubeMusic_search_args_falsy:
  "\<not> truthy (q_duration q) \<Longrightarrow> \<not> truthy d \<Longrightarrow>
     YouTubeMusic_search_args tu tn request (q\<lparr>q_duration := d\<rparr>)
       = YouTubeMusic_search_args tu tn request q"
  by (simp add: YouTubeMusic_search_args_def YouTubeMusic_final_def strippedMeta_A_def
        classify_falsy [of d "q_duration q"] cong: sum.case_cong)

lemma YouTube_search_args_falsy:
  "\<not> truthy (q_duration q) \<Longrightarrow> \<not> truthy d \<Longrightarrow>
     YouTube_search_args tu yt (q\<lparr>q_duration := d\<rparr>) = YouTube_search_args tu yt q"
  by (simp add: YouTube_search_args_def YouTube_final_def YouTube_outcomes_def strippedMeta_B_def
        collect_def Let_def calcB_falsy [of d "q_duration q"])

lemma getSearchArgs_strings:
  "\<not> truthy du \<or> typeof du = T_number \<Longrightarrow>
   getSearchArgs (Array (map String ars)) (String t) (String al) du
     = Inr \<lparr>q_artists = ars, q_track = t, q_album = al, q_duration = du\<rparr>"
  by (auto simp add: getSearchArgs_def validateArgs_def shuffle_defs list_ex_iff comp_def)


text \<open>
  C7. A call with only a number in the track position: the number becomes the duration
  and the track is left undefined, the artists become the empty list, and validation
  fails on the track. Both backends return that error whatever the network would
  answer: the error does not depend on the request function.
\<close>

theorem numeric_track_only_fails_validation:
  "shuffleArgs \<lparr>a_artists = Undefined, a_track = Number n, a_album = Undefined,
       a_duration = Undefined\<rparr>
     = \<lparr>a_artists = Array [], a_track = Undefined, a_album = Undefined,
         a_duration = Number n\<rparr>
   \<and> getSearchArgs Undefined (Number n) Undefined Undefined
       = Inl (Error ''<track> must be a valid string'')
   \<and> YouTubeMusic_search tu ToNumber request Undefined (Number n) Undefined Undefined
       = Inl (Error ''<track> must be a valid string'')
   \<and> YouTube_search tu ytSearch Undefined (Number n) Undefined Undefined
       = Inl (Error ''<track> must be a valid string'')"
  by (simp add: YouTubeMusic_search_def YouTube_search_def getSearchArgs_def validateArgs_def
        shuffle_defs)

lemma numeric_album_is_rejected:
  "getSearchArgs (Array (map String ars)) (String t) (Number n) du
     = Inl (Error ''<album> must be a valid string'')"
  by (simp add: getSearchArgs_def validateArgs_def shuffle_defs list_ex_iff comp_def)

lemma absent_album_always_fails:
  "getSearchArgs ar tr Undefined du \<in>
      {Inl (Error ''<track> must be a valid string''),
       Inl (Error ''<album> must be a valid string'')}"
  by (simp add: getSearchArgs_def validateArgs_def shuffle_defs list_ex_iff comp_def)

text \<open>
  C4, at a call with artists, a track title and a duration but no album: the check of
  line 30 has no \<open>album &&\<close> in front of it, as the check of line 33 has for the
  duration, so the call is rejected, by both backends and whatever the network would
  answer. The call that line 25 prepares, with the duration in the album position, is
  rejected the same way: the shuffle leaves the album undefined and moves the number to
  the duration, and line 30 then throws.
\<close>

theorem absent_album_is_rejected:
  "getSearchArgs (Array [String ''Daft Punk'']) (String ''One More Time'') Undefined
     (Number (Num 320000))
     = Inl (Error ''<album> must be a valid string'')
   \<and> YouTubeMusic_search tu ToNumber request (Array [String ''Daft Punk''])
       (String ''One More Time'') Undefined (Number (Num 320000))
     = Inl (Error ''<album> must be a valid string'')
   \<and> YouTube_search tu ytSearch (Array [String ''Daft Punk''])
       (String ''One More Time'') Undefined (Number (Num 320000))
     = Inl (Error ''<album> must be a valid string'')
   \<and> shuffleArgs \<lparr>a_artists = Array [String ''Daft Punk''],
         a_track = String ''One More Time'', a_album = Number (Num 320000),
         a_duration = Undefined\<rparr>
     = \<lparr>a_artists = Array [String ''Daft Punk''], a_track = String ''One More Time'',
         a_album = Undefined, a_duration = Number (Num 320000)\<rparr>
   \<and> getSearchArgs (Array [String ''Daft Punk'']) (String ''One More Time'')
       (Number (Num 320000)) Undefined
     = Inl (Error ''<album> must be a valid string'')
   \<and> YouTube_search tu ytSearch (Array [String ''Daft Punk''])
       (String ''One More Time'') (Number (Num 320000)) Undefined
     = Inl (Error ''<album> must be a valid string'')"
  by (simp add: YouTubeMusic_search_def YouTube_search_def getSearchArgs_def validateArgs_def
        shuffle_defs)

text \<open>
  C10. An expected duration of \<open>0\<close> passes validation and is then read as no duration:
  the penalty is the fixed \<open>50\<close> (no division takes place), each backend's accuracy
  function returns what it returns without a duration, and so does each search.
\<close>

theorem zero_duration_is_no_duration:
  "getSearchArgs (Array (map String ars)) (String t) (String al) (Number (Num 0))
     = Inr \<lparr>q_artists = ars, q_track = t, q_album = al, q_duration = Number (Num 0)\<rparr>
   \<and> nmul (duration_delta (Number (Num 0)) actual) (Num 100) = Num 50
   \<and> calculateAccuracyFor_A (Number (Num 0)) item weight
       = calculateAccuracyFor_A Undefined item weight
   \<and> calculateAccuracyFor_B tu (Number (Num 0)) strippedArtists highestViews video
       = calculateAccuracyFor_B tu Undefined strippedArtists highestViews video
   \<and> YouTubeMusic_search tu ToNumber request (Array (map String ars)) (String t) (String al)
         (Number (Num 0))
       = YouTubeMusic_search tu ToNumber request (Array (map String ars)) (String t) (String al)
           Undefined
   \<and> YouTube_search tu ytSearch (Array (map String ars)) (String t) (String al) (Number (Num 0))
       = YouTube_search tu ytSearch (Array (map String ars)) (String t) (String al) Undefined"
proof -
  let ?q = "\<lparr>q_artists = ars, q_track = t, q_album = al, q_duration = Undefined\<rparr>"
  have z: "getSearchArgs (Array (map String ars)) (String t) (String al) (Number (Num 0))
     = Inr (?q\<lparr>q_duration := Number (Num 0)\<rparr>)"
    by (simp add: getSearchArgs_strings)
  have u: "getSearchArgs (Array (map String ars)) (String t) (String al) Undefined = Inr ?q"
    by (simp add: getSearchArgs_strings)
  have a: "YouTubeMusic_search_args tu ToNumber request (?q\<lparr>q_duration := Number (Num 0)\<rparr>)
      = YouTubeMusic_search_args tu ToNumber request ?q"
    by (rule YouTubeMusic_search_args_falsy) simp_all
  have b: "YouTube_search_args tu ytSearch (?q\<lparr>q_duration := Number (Num 0)\<rparr>)
      = YouTube_search_args tu ytSearch ?q"
    by (rule YouTube_search_args_falsy) simp_all
  have p: "nmul (duration_delta (Number (Num 0)) actual) (Num 100) = Num 50"
    by (simp add: duration_delta_falsy nmul_def)
  have ca: "calculateAccuracyFor_A (Number (Num 0)) item weight
       = calculateAccuracyFor_A Undefined item weight"
    by (rule calcA_falsy) simp_all
  have cb: "calculateAccuracyFor_B tu (Number (Num 0)) strippedArtists highestViews video
       = calculateAccuracyFor_B tu Undefined strippedArtists highestViews video"
    using calcB_falsy [of "Number (Num 0)" Undefined] by simp
  show ?thesis
    unfolding YouTubeMusic_search_def YouTube_search_def z u
    using a b p ca cb by simp
qed

section \<open>Backend A\<close>

lemma foldl_store_map_filter:
  "foldl (\<lambda>final x. case f x of None \<Rightarrow> final | Some e \<Rightarrow> store final e) final xs
     = foldl store final (List.map_filter f xs)"
  by (induction xs arbitrary: final) (simp_all add: List.map_filter_simps split: option.splits)

lemma classify_step_store:
  "classify_step tn d final w = Inr final' \<Longrightarrow>
     final' = (case entry_of tn d w of None \<Rightarrow> final | Some e \<Rightarrow> store final e)"
  by (auto simp: classify_step_def entry_of_def store_def Let_def
           split: option.splits if_splits)

lemma classify_store:
  "classify tn d final ws = Inr final' \<Longrightarrow>
     final' = foldl store final (List.map_filter (entry_of tn d) ws)"
proof (induction ws arbitrary: final)
  case Nil
  then show ?case by (simp add: List.map_filter_simps)
next
  case (Cons w ws)
  from Cons.prems obtain mid where
    step: "classify_step tn d final w = Inr mid" and rest: "classify tn d mid ws = Inr final'"
    by (auto split: sum.splits)
  from classify_step_store [OF step] Cons.IH [OF rest] show ?case
    by (simp add: List.map_filter_simps split: option.splits)
qed

lemma add_item_store:
  "add_item f xf final item
     = (case entry_of_video f xf item of None \<Rightarrow> final | Some e \<Rightarrow> store final e)"
  by (simp add: add_item_def entry_of_video_def store_def split: option.splits)

lemma add_source_store: "add_source f final src = foldl store final (entries_of_source f src)"
proof (cases src)
  case None
  then show ?thesis by (simp add: add_source_def entries_of_source_def)
next
  case (Some s)
  have "add_item f (s_xFilters s)
      = (\<lambda>final x. case entry_of_video f (s_xFilters s) x of
                      None \<Rightarrow> final | Some e \<Rightarrow> store final e)"
    by (intro ext) (rule add_item_store)
  with Some show ?thesis
    by (simp add: add_source_def entries_of_source_def foldl_store_map_filter)
qed

lemma add_sources_store:
  "foldl (add_source f) final srcs = foldl store final (concat (map (entries_of_source f) srcs))"
  by (induction srcs arbitrary: final) (simp_all add: add_source_store)

lemma calcA_spec:
  "calculateAccuracyFor_A d item w = spec_accuracy_A d (c_duration_ms item) (c_type item) w"
  by (simp add: calculateAccuracyFor_A_def spec_accuracy_A_def spec_duration_penalty_def
        duration_delta_def type_bump_def spec_boost_def Let_def)

lemma cleanItem_of_fields:
  "c_accuracy (cleanItem_of tn d w dur vid)
     = spec_accuracy_A d (duration_ms_of tn dur) (i_type (w_item w)) (w_weight w)"
  "c_type (cleanItem_of tn d w dur vid) = i_type (w_item w)"
  "c_duration_ms (cleanItem_of tn d w dur vid) = duration_ms_of tn dur"
  "c_videoId (cleanItem_of tn d w dur vid) = vid"
  "c_title (cleanItem_of tn d w dur vid) = i_title (w_item w)"
  "c_duration (cleanItem_of tn d w dur vid) = dur"
  "c_author (cleanItem_of tn d w dur vid) = i_artists (w_item w)"
  by (simp_all add: cleanItem_of_def Let_def calcA_spec)

lemma entry_of_SomeD:
  assumes "entry_of tn d w = Some (k, c)"
  shows "gt (w_weight w) (Num 65)" and "gt (c_accuracy c) (Num 80)"
    and "c_accuracy c = spec_accuracy_A d (c_duration_ms c) (c_type c) (w_weight w)"
    and "c_type c = i_type (w_item w)" and "i_videoId (w_item w) = Some (c_videoId c)"
    and "k = key_of (c_videoId c)" and "c_title c = i_title (w_item w)"
    and "i_duration (w_item w) = Some (c_duration c)"
    and "c_duration_ms c = duration_ms_of tn (c_duration c)"
  using assms
  by (auto simp: entry_of_def cleanItem_of_fields split: option.splits if_splits)

lemma weigh_SomeD:
  assumes "weigh tu sm item = Inr (Some w)"
  shows "w_item w = item" and "i_type item = Some ''song'' \<or> i_type item = Some ''video''"
    and "i_title item \<noteq> None"
  using assms by (auto simp: weigh_def split: option.splits if_splits)

lemma validSections_item:
  "validSections tu sm items = Inr ws \<Longrightarrow> w \<in> set ws \<Longrightarrow>
     \<exists>item \<in> set items. weigh tu sm item = Inr (Some w)"
proof (induction items arbitrary: ws)
  case Nil
  then show ?case by simp
next
  case (Cons item items)
  then show ?case
    by (auto split: sum.splits option.splits)
qed

lemma YouTubeMusic_final_source:
  assumes "YouTubeMusic_final tu tn request q = Inr final" and "(k, c) \<in> set final"
  shows "\<exists>results valid w.
      request (join_sp ([q_track q, q_album q] @ q_artists q)) = Inr results
      \<and> validSections tu (strippedMeta_A tu q) (sections results) = Inr valid
      \<and> w \<in> set valid \<and> entry_of tn (q_duration q) w = Some (k, c)"
proof -
  from assms(1) obtain results valid where
    r: "request (join_sp ([q_track q, q_album q] @ q_artists q)) = Inr results"
    and v: "validSections tu (strippedMeta_A tu q) (sections results) = Inr valid"
    and c: "classify tn (q_duration q) [] valid = Inr final"
    by (auto simp: YouTubeMusic_final_def split: sum.splits)
  from classify_store [OF c] store_all_set [of "[]"] assms(2)
  have "(k, c) \<in> set (List.map_filter (entry_of tn (q_duration q)) valid)"
    by auto
  then obtain w where "w \<in> set valid" "entry_of tn (q_duration q) w = Some (k, c)"
    by (auto simp: List.map_filter_def)
  with r v show ?thesis by blast
qed

lemma YouTubeMusic_search_final:
  assumes "YouTubeMusic_search tu tn request ar tr al du = Inr cs"
  shows "\<exists>q final. getSearchArgs ar tr al du = Inr q
      \<and> YouTubeMusic_final tu tn request q = Inr final
      \<and> cs = Array_sort (by_accuracy c_accuracy) (Object_values final)"
  using assms
  by (auto simp: YouTubeMusic_search_def YouTubeMusic_search_args_def split: sum.splits)

text \<open>
  C1. The accuracy function of Backend A is the formula of the specification: the
  weight minus the duration penalty, raised toward 100 by a half, a quarter or a
  twentieth of the remaining gap. An item whose weight is not above 65 leaves the
  dictionary as it is, and every candidate that \<open>search\<close> returns comes from an item
  whose weight is above 65, carries the accuracy the formula gives for that weight,
  and that accuracy is above 80.
\<close>

theorem accuracy_A_formula_and_thresholds:
  "calculateAccuracyFor_A duration item weight
     = spec_accuracy_A duration (c_duration_ms item) (c_type item) weight
   \<and> (\<not> gt (w_weight w) (Num 65) \<longrightarrow> classify_step ToNumber duration final w = Inr final)
   \<and> (YouTubeMusic_search tu ToNumber request ar tr al du = Inr cs \<and> c \<in> set cs \<longrightarrow>
        (\<exists>q results valid v.
           getSearchArgs ar tr al du = Inr q
           \<and> request (join_sp ([q_track q, q_album q] @ q_artists q)) = Inr results
           \<and> validSections tu (strippedMeta_A tu q) (sections results) = Inr valid
           \<and> v \<in> set valid \<and> i_videoId (w_item v) = Some (c_videoId c)
           \<and> gt (w_weight v) (Num 65)
           \<and> c_accuracy c
               = spec_accuracy_A (q_duration q) (c_duration_ms c) (c_type c) (w_weight v)
           \<and> gt (c_accuracy c) (Num 80)))"
proof (intro conjI impI)
  show "calculateAccuracyFor_A duration item weight
     = spec_accuracy_A duration (c_duration_ms item) (c_type item) weight"
    by (rule calcA_spec)
next
  assume "\<not> gt (w_weight w) (Num 65)"
  then show "classify_step ToNumber duration final w = Inr final"
    by (simp add: classify_step_def split: option.splits)
next
  assume a: "YouTubeMusic_search tu ToNumber request ar tr al du = Inr cs \<and> c \<in> set cs"
  then obtain q final where q: "getSearchArgs ar tr al du = Inr q"
    and f: "YouTubeMusic_final tu ToNumber request q = Inr final"
    and cs: "cs = Array_sort (by_accuracy c_accuracy) (Object_values final)"
    using YouTubeMusic_search_final by blast
  from a cs obtain k where "(k, c) \<in> set final"
    by (auto simp: set_Array_sort set_Object_values)
  from YouTubeMusic_final_source [OF f this] obtain results valid v where
    "request (join_sp ([q_track q, q_album q] @ q_artists q)) = Inr results"
    "validSections tu (strippedMeta_A tu q) (sections results) = Inr valid"
    "v \<in> set valid" and e: "entry_of ToNumber (q_duration q) v = Some (k, c)"
    by blast
  with q entry_of_SomeD [OF e] show "\<exists>q results valid v.
           getSearchArgs ar tr al du = Inr q
           \<and> request (join_sp ([q_track q, q_album q] @ q_artists q)) = Inr results
           \<and> validSections tu (strippedMeta_A tu q) (sections results) = Inr valid
           \<and> v \<in> set valid \<and> i_videoId (w_item v) = Some (c_videoId c)
           \<and> gt (w_weight v) (Num 65)
           \<and> c_accuracy c
               = spec_accuracy_A (q_duration q) (c_duration_ms c) (c_type c) (w_weight v)
           \<and> gt (c_accuracy c) (Num 80)"
    by blast
qed

theorem accuracy_A_formula_and_thresholds_witness:
  "\<not> gt (w_weight \<lparr>w_item = song_item ''Intro'' (Some ''abc'') ''5:20'', w_weight = Num 40\<rparr>) (Num 65)
   \<and> classify_step decimal_ToNumber Undefined []
        \<lparr>w_item = song_item ''Intro'' (Some ''abc'') ''5:20'', w_weight = Num 40\<rparr> = Inr []
   \<and> run_A [song_item ''One More Time'' (Some ''abc'') ''5:20'']
       = Inr [song_candidate ''One More Time'' (Some ''abc'') ''5:20'' (Num 320000) (Num 100)]
   \<and> (\<exists>q results valid v.
         getSearchArgs (Array [String ''Daft Punk'']) (String ''One More Time'') (String [])
           (Number (Num 320000)) = Inr q
         \<and> songs_response [song_item ''One More Time'' (Some ''abc'') ''5:20'']
             (join_sp ([q_track q, q_album q] @ q_artists q)) = Inr results
         \<and> validSections spec_text_utils (strippedMeta_A spec_text_utils q) (sections results)
             = Inr valid
         \<and> v \<in> set valid
         \<and> i_videoId (w_item v) = Some (c_videoId
               (song_candidate ''One More Time'' (Some ''abc'') ''5:20'' (Num 320000) (Num 100)))
         \<and> gt (w_weight v) (Num 65)
         \<and> c_accuracy
               (song_candidate ''One More Time'' (Some ''abc'') ''5:20'' (Num 320000) (Num 100))
             = spec_accuracy_A (q_duration q)
                 (c_duration_ms
                   (song_candidate ''One More Time'' (Some ''abc'') ''5:20'' (Num 320000) (Num 100)))
                 (c_type
                   (song_candidate ''One More Time'' (Some ''abc'') ''5:20'' (Num 320000) (Num 100)))
                 (w_weight v)
         \<and> gt (c_accuracy
               (song_candidate ''One More Time'' (Some ''abc'') ''5:20'' (Num 320000) (Num 100)))
              (Num 80))"
proof -
  let ?w = "\<lparr>w_item = song_item ''Intro'' (Some ''abc'') ''5:20'', w_weight = Num 40\<rparr>"
  let ?c = "song_candidate ''One More Time'' (Some ''abc'') ''5:20'' (Num 320000) (Num 100)"
  note inst = accuracy_A_formula_and_thresholds
    [where w = "?w" and ToNumber = decimal_ToNumber and duration = Undefined and final = "[]"
       and tu = spec_text_utils
       and request = "songs_response [song_item ''One More Time'' (Some ''abc'') ''5:20'']"
       and ar = "Array [String ''Daft Punk'']" and tr = "String ''One More Time''"
       and al = "String []" and du = "Number (Num 320000)" and cs = "[?c]" and c = "?c"]
  have low: "\<not> gt (w_weight ?w) (Num 65)" by simp
  have run: "YouTubeMusic_search spec_text_utils decimal_ToNumber
      (songs_response [song_item ''One More Time'' (Some ''abc'') ''5:20''])
      (Array [String ''Daft Punk'']) (String ''One More Time'') (String [])
      (Number (Num 320000)) = Inr [?c]"
    using run_A_scenario_1 by (simp add: run_A_def)
  have mem: "?c \<in> set [?c]" by simp
  note step = inst [THEN conjunct2, THEN conjunct1, THEN mp, OF low]
  note ex = inst [THEN conjunct2, THEN conjunct2, THEN mp, OF conjI [OF run mem]]
  show ?thesis
    by (intro conjI) (rule low step run_A_scenario_1 ex)+
qed

lemma build_song_content:
  "d \<noteq> separator \<Longrightarrow>
   build_item (Some ''Songs'') (song_content title videoId d) = Inr (song_item title videoId d)"
  by (simp add: build_item_def item_type_def getItemText_def song_content_def song_item_def
        separator_def Let_def)

lemma lower_separator: "map lower separator = separator"
  by (simp add: separator_def lower_def)

lemma item_type_album_first_run:
  assumes "item_type layerName c = Inr ''album''"
  shows "\<exists>r rs. col1 c = Some (r # rs) \<and> t_text r \<noteq> separator
           \<and> (map lower (t_text r) = ''album'' \<or> map lower (t_text r) = ''single'')"
proof -
  from assms obtain r rs where c: "col1 c = Some (r # rs)"
    and t: "map lower (t_text r) = ''album'' \<or> map lower (t_text r) = ''single''"
    by (auto simp: item_type_def getItemText_def split: if_splits option.splits list.splits)
  have "t_text r \<noteq> separator"
  proof
    assume "t_text r = separator"
    with t lower_separator show False by (simp add: separator_def)
  qed
  with c t show ?thesis by (intro exI [of _ r] exI [of _ rs]) simp
qed

lemma build_item_videoId_key:
  assumes b: "build_item layerName c = Inr item"
    and t: "i_type item = Some ''song'' \<or> i_type item = Some ''video''"
  shows "i_videoId item = Some (play_videoId c)"
proof -
  from b obtain type where ty: "item_type layerName c = Inr type"
    by (auto simp: build_item_def split: sum.splits)
  show ?thesis
  proof (cases "type = ''album''")
    case True
    with ty have "item_type layerName c = Inr ''album''" by simp
    from item_type_album_first_run [OF this] obtain r rs where
      c: "col1 c = Some (r # rs)" and r: "t_text r \<noteq> separator"
      and l: "map lower (t_text r) = ''album'' \<or> map lower (t_text r) = ''single''"
      by auto
    from b ty True c r have "item = empty_item \<or> i_type item = Some (map lower (t_text r))"
      by (auto simp: build_item_def Let_def split: sum.splits if_splits)
    with t l show ?thesis by (auto simp: empty_item_def)
  next
    case False
    with b ty t show ?thesis
      by (auto simp: build_item_def Let_def empty_item_def
               split: sum.splits option.splits if_splits)
  qed
qed

lemma returned_candidates_are_songs_or_videos:
  assumes cs: "YouTubeMusic_search tu tn request ar tr al du = Inr cs" and c: "c \<in> set cs"
  shows "c_type c = Some ''song'' \<or> c_type c = Some ''video''"
proof -
  from YouTubeMusic_search_final [OF cs] obtain q final where
    f: "YouTubeMusic_final tu tn request q = Inr final"
    and "cs = Array_sort (by_accuracy c_accuracy) (Object_values final)"
    by auto
  with c obtain k where "(k, c) \<in> set final"
    by (auto simp: set_Array_sort set_Object_values)
  from YouTubeMusic_final_source [OF f this] obtain results valid w where
    v: "validSections tu (strippedMeta_A tu q) (sections results) = Inr valid"
    and w: "w \<in> set valid" and e: "entry_of tn (q_duration q) w = Some (k, c)"
    by blast
  from validSections_item [OF v w] obtain item where
    "weigh tu (strippedMeta_A tu q) item = Inr (Some w)" by blast
  from weigh_SomeD(1,2) [OF this] entry_of_SomeD(4) [OF e] show ?thesis by simp
qed

text \<open>
  C9, at a song of the Songs section whose play button has no video identifier:
  \<open>#search\<close> builds the item with the key \<open>videoId\<close> and the value \<open>undefined\<close>, so
  \<open>'videoId' in item\<close> holds on line 337 and \<open>search\<close> returns the item as a
  candidate whose \<open>videoId\<close> is \<open>undefined\<close>.
\<close>

theorem undefined_videoId_is_returned:
  "build_item (Some ''Songs'') (song_content ''One More Time'' None ''5:20'')
     = Inr (song_item ''One More Time'' None ''5:20'')
   \<and> run_A [song_item ''One More Time'' None ''5:20'']
     = Inr [song_candidate ''One More Time'' None ''5:20'' (Num 320000) (Num 100)]"
proof
  show "build_item (Some ''Songs'') (song_content ''One More Time'' None ''5:20'')
     = Inr (song_item ''One More Time'' None ''5:20'')"
    by (rule build_song_content) (simp add: separator_def)
  show "run_A [song_item ''One More Time'' None ''5:20'']
     = Inr [song_candidate ''One More Time'' None ''5:20'' (Num 320000) (Num 100)]"
    by (simp add: run_A_defs text_defs number_defs)
qed

section \<open>One entry per identifier\<close>

lemma filter_key_distinct:
  "distinct (map fst final) \<Longrightarrow>
   filter (\<lambda>e. fst e = k) final = (case map_of final k of None \<Rightarrow> [] | Some c \<Rightarrow> [(k, c)])"
proof (induction final)
  case Nil
  then show ?case by simp
next
  case (Cons e final)
  then have "fst e = k \<Longrightarrow> map_of final k = None"
    by (simp add: map_of_eq_None_iff)
  moreover have "fst e = k \<Longrightarrow> filter (\<lambda>e. fst e = k) final = []"
  proof -
    have "fst e \<notin> fst ` set final" using Cons.prems by simp
    then have "\<forall>x \<in> set final. fst x \<noteq> fst e" by (metis imageI)
    then show "fst e = k \<Longrightarrow> filter (\<lambda>e. fst e = k) final = []"
      by (auto simp: filter_empty_conv)
  qed
  ultimately show ?case using Cons
    by (cases e) (auto split: option.splits)
qed

lemma mset_at_most_one:
  "mset xs = mset (case r of None \<Rightarrow> [] | Some c \<Rightarrow> [c]) \<Longrightarrow>
   xs = (case r of None \<Rightarrow> [] | Some c \<Rightarrow> [c])"
  by (cases r) (auto simp: mset_single_iff_right dest: arg_cong[where f = size])

lemma filter_sorted_values:
  assumes d: "distinct (map fst final)" and key: "\<forall>e \<in> set final. key (snd e) = fst e"
  shows "filter (\<lambda>c. key c = k) (Array_sort cmp (Object_values final))
         = (case map_of final k of None \<Rightarrow> [] | Some c \<Rightarrow> [c])"
proof -
  have "filter (\<lambda>c. key c = k) (map snd final) = map snd (filter (\<lambda>e. fst e = k) final)"
    using key by (induction final) auto
  also have "\<dots> = (case map_of final k of None \<Rightarrow> [] | Some c \<Rightarrow> [c])"
    by (simp add: filter_key_distinct [OF d] split: option.splits)
  finally have plain: "filter (\<lambda>c. key c = k) (map snd final)
      = (case map_of final k of None \<Rightarrow> [] | Some c \<Rightarrow> [c])" .
  have "mset (filter (\<lambda>c. key c = k) (Array_sort cmp (Object_values final)))
      = mset (filter (\<lambda>c. key c = k) (map snd final))"
    by (simp add: mset_Array_sort mset_Object_values)
  with plain show ?thesis
    by (simp add: mset_at_most_one)
qed

lemma distinct_keys_sorted_values:
  assumes d: "distinct (map fst final)" and key: "\<forall>e \<in> set final. key (snd e) = fst e"
  shows "distinct (map key (Array_sort cmp (Object_values final)))"
proof -
  have "map key (map snd final) = map fst final"
    using key by (induction final) auto
  with d have "distinct (map key (map snd final))" by (simp only:)
  moreover have "mset (map key (Array_sort cmp (Object_values final)))
      = mset (map key (map snd final))"
    by (simp add: mset_Array_sort mset_Object_values multiset.map_comp)
  ultimately show ?thesis
    by (metis mset_eq_imp_distinct_iff)
qed

lemma YouTube_final_store:
  "YouTube_final tu ytSearch q = foldl store [] (YouTube_entries tu ytSearch q)"
  by (simp add: YouTube_final_def YouTube_entries_def collect_def Let_def add_sources_store)

lemma entry_of_video_key:
  "entry_of_video f xf item = Some (k, c) \<Longrightarrow> y_videoId c = k \<and> v_videoId item = Some k"
  by (auto simp: entry_of_video_def split: option.splits)

lemma entries_of_source_key:
  "e \<in> set (entries_of_source f src) \<Longrightarrow> y_videoId (snd e) = fst e"
  by (cases e)
     (auto simp: entries_of_source_def List.map_filter_def dest: entry_of_video_key
           split: option.splits)

lemma YouTube_entries_key:
  "e \<in> set (YouTube_entries tu ytSearch q) \<Longrightarrow> y_videoId (snd e) = fst e"
  by (auto simp: YouTube_entries_def Let_def dest: entries_of_source_key)

lemma YouTube_final_key:
  "e \<in> set (YouTube_final tu ytSearch q) \<Longrightarrow> y_videoId (snd e) = fst e"
  using store_all_set [of "[]" "YouTube_entries tu ytSearch q"]
  by (auto simp: YouTube_final_store dest: YouTube_entries_key)

lemma map_filter_entry_key:
  "e \<in> set (List.map_filter (entry_of tn d) valid) \<Longrightarrow> key_of (c_videoId (snd e)) = fst e"
  by (cases e) (auto simp: List.map_filter_def dest: entry_of_SomeD(6))
lemma YouTube_search_final:
  assumes "YouTube_search tu ytSearch ar tr al du = Inr ys"
  shows "\<exists>q. getSearchArgs ar tr al du = Inr q
      \<and> ys = Array_sort (by_accuracy y_accuracy) (Object_values (YouTube_final tu ytSearch q))"
  using assms
  by (auto simp: YouTube_search_def YouTube_search_args_def Let_def
           split: sum.splits if_splits outcome.splits)

text \<open>
  C3, as stated, fails for Backend A: two items share the identifier \<open>abc\<close>, the first
  one does not reach the weight threshold, and the entry of the final list is the
  second one.
\<close>

theorem later_duplicate_counterexample:
  "run_A [song_item ''Intro'' (Some ''abc'') ''5:20'',
          song_item ''One More Time'' (Some ''abc'') ''5:20'']
   = Inr [song_candidate ''One More Time'' (Some ''abc'') ''5:20'' (Num 320000) (Num 100)]"
  by (rule run_A_later_duplicate)

text \<open>
  C3, amended. The final list of either backend has at most one entry per identifier,
  and that entry is the first, in encounter order, that asked to be stored under the
  identifier (\<open>map_of\<close> reads the first entry with a key). For Backend B every kept video
  with an identifier asks. For Backend A an item asks only when its weight is above 65
  and its accuracy above 80: an earlier item with the same identifier that fails a
  threshold is skipped, and when none passes there is no entry. A name inherited from
  \<open>Object.prototype\<close> is never stored.
\<close>

theorem first_stored_candidate_wins:
  "(YouTubeMusic_search tu ToNumber request ar tr al du = Inr cs \<longrightarrow>
      (\<exists>q results valid.
         getSearchArgs ar tr al du = Inr q
         \<and> request (join_sp ([q_track q, q_album q] @ q_artists q)) = Inr results
         \<and> validSections tu (strippedMeta_A tu q) (sections results) = Inr valid
         \<and> distinct (map (\<lambda>c. key_of (c_videoId c)) cs)
         \<and> filter (\<lambda>c. key_of (c_videoId c) = k) cs
             = (if k \<in> set Object_prototype_keys then []
                else case map_of (List.map_filter (entry_of ToNumber (q_duration q)) valid) k of
                       None \<Rightarrow> []
                     | Some c \<Rightarrow> [c])))
   \<and> (YouTube_search tu ytSearch ar tr al du = Inr ys \<longrightarrow>
      (\<exists>q. getSearchArgs ar tr al du = Inr q
         \<and> distinct (map y_videoId ys)
         \<and> filter (\<lambda>c. y_videoId c = k) ys
             = (if k \<in> set Object_prototype_keys then []
                else case map_of (YouTube_entries tu ytSearch q) k of
                       None \<Rightarrow> []
                     | Some c \<Rightarrow> [c])))"
proof (intro conjI impI)
  assume a: "YouTubeMusic_search tu ToNumber request ar tr al du = Inr cs"
  then obtain q final where q: "getSearchArgs ar tr al du = Inr q"
    and f: "YouTubeMusic_final tu ToNumber request q = Inr final"
    and cs: "cs = Array_sort (by_accuracy c_accuracy) (Object_values final)"
    using YouTubeMusic_search_final by blast
  from f obtain results valid where
    r: "request (join_sp ([q_track q, q_album q] @ q_artists q)) = Inr results"
    and v: "validSections tu (strippedMeta_A tu q) (sections results) = Inr valid"
    and c: "classify ToNumber (q_duration q) [] valid = Inr final"
    by (auto simp: YouTubeMusic_final_def split: sum.splits)
  let ?es = "List.map_filter (entry_of ToNumber (q_duration q)) valid"
  have final: "final = foldl store [] ?es" by (rule classify_store [OF c])
  have d: "distinct (map fst final)"
    unfolding final by (rule store_all_distinct) simp
  have key: "\<forall>e \<in> set final. key_of (c_videoId (snd e)) = fst e"
  proof (rule ballI)
    fix e assume "e \<in> set final"
    then have "e \<in> set ?es"
      using store_all_set [of "[]" ?es] unfolding final by auto
    then show "key_of (c_videoId (snd e)) = fst e" by (rule map_filter_entry_key)
  qed
  have look: "map_of final k = (if k \<in> set Object_prototype_keys then None else map_of ?es k)"
    unfolding final by (simp add: map_of_store_all)
  have "filter (\<lambda>c. key_of (c_videoId c) = k) cs
      = (if k \<in> set Object_prototype_keys then []
         else case map_of ?es k of None \<Rightarrow> [] | Some c \<Rightarrow> [c])"
    unfolding cs filter_sorted_values [OF d key] look by simp
  moreover have "distinct (map (\<lambda>c. key_of (c_videoId c)) cs)"
    unfolding cs by (rule distinct_keys_sorted_values [OF d key])
  ultimately show "\<exists>q results valid.
         getSearchArgs ar tr al du = Inr q
         \<and> request (join_sp ([q_track q, q_album q] @ q_artists q)) = Inr results
         \<and> validSections tu (strippedMeta_A tu q) (sections results) = Inr valid
         \<and> distinct (map (\<lambda>c. key_of (c_videoId c)) cs)
         \<and> filter (\<lambda>c. key_of (c_videoId c) = k) cs
             = (if k \<in> set Object_prototype_keys then []
                else case map_of (List.map_filter (entry_of ToNumber (q_duration q)) valid) k of
                       None \<Rightarrow> []
                     | Some c \<Rightarrow> [c])"
    using q r v by blast
next
  assume a: "YouTube_search tu ytSearch ar tr al du = Inr ys"
  then obtain q where q: "getSearchArgs ar tr al du = Inr q"
    and ys: "ys = Array_sort (by_accuracy y_accuracy) (Object_values (YouTube_final tu ytSearch q))"
    using YouTube_search_final by blast
  let ?final = "YouTube_final tu ytSearch q"
  let ?es = "YouTube_entries tu ytSearch q"
  have d: "distinct (map fst ?final)"
    unfolding YouTube_final_store by (rule store_all_distinct) simp
  have key: "\<forall>e \<in> set ?final. y_videoId (snd e) = fst e"
    by (rule ballI) (rule YouTube_final_key)
  have look: "map_of ?final k = (if k \<in> set Object_prototype_keys then None else map_of ?es k)"
    unfolding YouTube_final_store by (simp add: map_of_store_all)
  have "filter (\<lambda>c. y_videoId c = k) ys
      = (if k \<in> set Object_prototype_keys then []
         else case map_of ?es k of None \<Rightarrow> [] | Some c \<Rightarrow> [c])"
    unfolding ys filter_sorted_values [OF d key] look by simp
  moreover have "distinct (map y_videoId ys)"
    unfolding ys by (rule distinct_keys_sorted_values [OF d key])
  ultimately show "\<exists>q. getSearchArgs ar tr al du = Inr q
         \<and> distinct (map y_videoId ys)
         \<and> filter (\<lambda>c. y_videoId c = k) ys
             = (if k \<in> set Object_prototype_keys then []
                else case map_of (YouTube_entries tu ytSearch q) k of
                       None \<Rightarrow> []
                     | Some c \<Rightarrow> [c])"
    using q by blast
qed

theorem first_stored_candidate_wins_witness:
  "run_A [song_item ''Intro'' (Some ''abc'') ''5:20'',
          song_item ''One More Time'' (Some ''abc'') ''5:20'']
     = Inr [song_candidate ''One More Time'' (Some ''abc'') ''5:20'' (Num 320000) (Num 100)]
   \<and> (\<exists>q results valid.
         getSearchArgs (Array [String ''Daft Punk'']) (String ''One More Time'') (String [])
           (Number (Num 320000)) = Inr q
         \<and> songs_response [song_item ''Intro'' (Some ''abc'') ''5:20'',
               song_item ''One More Time'' (Some ''abc'') ''5:20'']
             (join_sp ([q_track q, q_album q] @ q_artists q)) = Inr results
         \<and> validSections spec_text_utils (strippedMeta_A spec_text_utils q) (sections results)
             = Inr valid
         \<and> distinct (map (\<lambda>c. key_of (c_videoId c))
               [song_candidate ''One More Time'' (Some ''abc'') ''5:20'' (Num 320000) (Num 100)])
         \<and> filter (\<lambda>c. key_of (c_videoId c) = ''abc'')
               [song_candidate ''One More Time'' (Some ''abc'') ''5:20'' (Num 320000) (Num 100)]
             = (if ''abc'' \<in> set Object_prototype_keys then []
                else case map_of (List.map_filter (entry_of decimal_ToNumber (q_duration q)) valid)
                            ''abc'' of
                       None \<Rightarrow> []
                     | Some c \<Rightarrow> [c]))
   \<and> run_B (all_succeed [video_item ''One More Time'' ''abc'' ''18:20'' 1100 (Some 10),
        video_item ''One More Time'' ''abc'' ''5:20'' 320 (Some 5),
        video_item ''One More Time'' ''xyz'' ''5:20'' 320 (Some 5)])
     = Inr [video_candidate ''One More Time'' ''xyz'' ''5:20'' (Num 320000) [] (Num 100),
            video_candidate ''One More Time'' ''abc'' ''18:20'' (Num 1100000) [] (Num (161 / 2))]
   \<and> (\<exists>q. getSearchArgs (Array [String ''Daft Punk'']) (String ''One More Time'') (String [])
           (Number (Num 320000)) = Inr q
         \<and> distinct (map y_videoId
              [video_candidate ''One More Time'' ''xyz'' ''5:20'' (Num 320000) [] (Num 100),
               video_candidate ''One More Time'' ''abc'' ''18:20'' (Num 1100000) []
                 (Num (161 / 2))])
         \<and> filter (\<lambda>c. y_videoId c = ''abc'')
              [video_candidate ''One More Time'' ''xyz'' ''5:20'' (Num 320000) [] (Num 100),
               video_candidate ''One More Time'' ''abc'' ''18:20'' (Num 1100000) []
                 (Num (161 / 2))]
             = (if ''abc'' \<in> set Object_prototype_keys then []
                else case map_of (YouTube_entries spec_text_utils
                       (answers (all_succeed
                          [video_item ''One More Time'' ''abc'' ''18:20'' 1100 (Some 10),
                           video_item ''One More Time'' ''abc'' ''5:20'' 320 (Some 5),
                           video_item ''One More Time'' ''xyz'' ''5:20'' 320 (Some 5)])) q)
                       ''abc'' of
                       None \<Rightarrow> []
                     | Some c \<Rightarrow> [c]))"
proof -
  let ?items = "[song_item ''Intro'' (Some ''abc'') ''5:20'',
          song_item ''One More Time'' (Some ''abc'') ''5:20'']"
  let ?cs = "[song_candidate ''One More Time'' (Some ''abc'') ''5:20'' (Num 320000) (Num 100)]"
  let ?table = "all_succeed [video_item ''One More Time'' ''abc'' ''18:20'' 1100 (Some 10),
        video_item ''One More Time'' ''abc'' ''5:20'' 320 (Some 5),
        video_item ''One More Time'' ''xyz'' ''5:20'' 320 (Some 5)]"
  let ?ys = "[video_candidate ''One More Time'' ''xyz'' ''5:20'' (Num 320000) [] (Num 100),
            video_candidate ''One More Time'' ''abc'' ''18:20'' (Num 1100000) [] (Num (161 / 2))]"
  note inst = first_stored_candidate_wins
    [where tu = spec_text_utils and ToNumber = decimal_ToNumber
       and request = "songs_response ?items" and ytSearch = "answers ?table"
       and ar = "Array [String ''Daft Punk'']" and tr = "String ''One More Time''"
       and al = "String []" and du = "Number (Num 320000)" and cs = "?cs" and ys = "?ys"
       and k = "''abc''"]
  have a: "YouTubeMusic_search spec_text_utils decimal_ToNumber (songs_response ?items)
      (Array [String ''Daft Punk'']) (String ''One More Time'') (String [])
      (Number (Num 320000)) = Inr ?cs"
    using run_A_later_duplicate by (simp add: run_A_def)
  have b: "YouTube_search spec_text_utils (answers ?table)
      (Array [String ''Daft Punk'']) (String ''One More Time'') (String [])
      (Number (Num 320000)) = Inr ?ys"
    using run_B_duplicates by (simp add: run_B_def)
  note ea = inst [THEN conjunct1, THEN mp, OF a]
  note eb = inst [THEN conjunct2, THEN mp, OF b]
  show ?thesis
    by (intro conjI) (rule run_A_later_duplicate ea run_B_duplicates eb)+
qed

section \<open>Backend B: failed variants\<close>

lemma isRejected_worker:
  "isRejected (worker tu ytSearch sm xf) = isRejected (ytSearch (join_sp (sm @ xf)))"
  by (simp add: worker_def split: outcome.splits)

lemma worker_Rejected:
  "ytSearch (join_sp (sm @ xf)) = Rejected err \<Longrightarrow> worker tu ytSearch sm xf = Rejected err"
  by (simp add: worker_def)

lemma YouTube_outcomes_map:
  "YouTube_outcomes tu ytSearch q = map (worker tu ytSearch (strippedMeta_B tu q)) variants"
  by (simp add: YouTube_outcomes_def searchQueue_push_def comp_def)

lemma all_rejected_iff:
  "list_all isRejected (YouTube_outcomes tu ytSearch q)
     = (\<forall>xf \<in> set variants. isRejected (ytSearch (join_sp (strippedMeta_B tu q @ xf))))"
  by (simp add: YouTube_outcomes_map list_all_iff isRejected_worker)

lemma last_outcome:
  "last (YouTube_outcomes tu ytSearch q)
     = worker tu ytSearch (strippedMeta_B tu q) (last variants)"
  by (simp add: YouTube_outcomes_map variants_def)

lemma has_key_apsnd [simp]: "has_key k (map (apsnd h) final) = has_key k final"
  by (simp add: has_key_def comp_def)

lemma store_apsnd: "map (apsnd h) (store final e) = store (map (apsnd h) final) (apsnd h e)"
  by (simp add: store_def)

lemma store_all_apsnd:
  "map (apsnd h) (foldl store final es) = foldl store (map (apsnd h) final) (map (apsnd h) es)"
  by (induction es arbitrary: final) (simp_all add: store_apsnd)

lemma entry_of_video_erase:
  "map_option (apsnd without_accuracy) (entry_of_video f xf item)
     = map_option (apsnd without_accuracy) (entry_of_video g xf item)"
  by (simp add: entry_of_video_def without_accuracy_def split: option.splits)

lemma map_map_filter:
  "map h (List.map_filter f xs) = List.map_filter (\<lambda>x. map_option h (f x)) xs"
  by (induction xs) (simp_all add: List.map_filter_simps split: option.splits)

lemma map_filter_erase:
  "map (apsnd without_accuracy) (List.map_filter (entry_of_video f xf) items)
     = map (apsnd without_accuracy) (List.map_filter (entry_of_video g xf) items)"
  by (simp add: map_map_filter entry_of_video_erase [of f xf _ g])

lemma entries_of_source_erase:
  "map (apsnd without_accuracy) (entries_of_source f src)
     = map (apsnd without_accuracy) (entries_of_source g src)"
  by (cases src) (simp_all add: entries_of_source_def map_filter_erase)

lemma settle_absorb:
  "entries_of_source f (settle (worker tu (absorb ytSearch) sm xf))
     = entries_of_source f (settle (worker tu ytSearch sm xf))"
  by (cases "ytSearch (join_sp (sm @ xf))")
     (simp_all add: worker_def absorb_def entries_of_source_def List.map_filter_simps)

lemma entries_absorb:
  "map (apsnd without_accuracy)
     (concat (map (\<lambda>xf. entries_of_source f (settle (worker tu (absorb ytSearch) sm xf))) xfs))
   = map (apsnd without_accuracy)
     (concat (map (\<lambda>xf. entries_of_source g (settle (worker tu ytSearch sm xf))) xfs))"
proof (induction xfs)
  case Nil
  then show ?case by simp
next
  case (Cons xf xfs)
  have "map (apsnd without_accuracy) (entries_of_source f (settle (worker tu (absorb ytSearch) sm xf)))
      = map (apsnd without_accuracy) (entries_of_source g (settle (worker tu ytSearch sm xf)))"
    by (simp only: settle_absorb entries_of_source_erase [of f _ g])
  with Cons show ?case by simp
qed

lemma YouTube_entries_absorb:
  "map (apsnd without_accuracy) (YouTube_entries tu (absorb ytSearch) q)
     = map (apsnd without_accuracy) (YouTube_entries tu ytSearch q)"
  by (simp add: YouTube_entries_def YouTube_outcomes_map Let_def comp_def entries_absorb)

lemma YouTube_final_absorb:
  "map (apsnd without_accuracy) (YouTube_final tu (absorb ytSearch) q)
     = map (apsnd without_accuracy) (YouTube_final tu ytSearch q)"
  by (simp add: YouTube_final_store store_all_apsnd YouTube_entries_absorb)

lemma mset_sorted_values_erased:
  "mset (map h (Array_sort cmp (Object_values final))) = mset (map snd (map (apsnd h) final))"
  by (simp add: mset_Array_sort mset_Object_values multiset.map_comp comp_def)

lemma absorb_never_rejected: "\<not> isRejected (absorb ytSearch query)"
  by (simp add: absorb_def split: outcome.splits)

text \<open>
  What holds of failed variants in general. When each of the four variants is rejected,
  \<open>search\<close> throws a search error with the message of the last variant's reason, and
  its code as the status when the code is a non-empty string.
\<close>

lemma all_variants_rejected:
  assumes q: "getSearchArgs ar tr al du = Inr q"
    and all: "\<forall>xf \<in> set variants. isRejected (ytSearch (join_sp (strippedMeta_B tu q @ xf)))"
    and lst: "ytSearch (join_sp (strippedMeta_B tu q @ last variants)) = Rejected err"
  shows "YouTube_search tu ytSearch ar tr al du
     = Inl (YouTubeSearchError \<lparr>message = f_message err, statusCode = None,
         status = (case f_code err of
                     None \<Rightarrow> None
                   | Some c \<Rightarrow> if c \<noteq> [] then Some c else None),
         body = None\<rparr>)"
proof -
  from all have "list_all isRejected (YouTube_outcomes tu ytSearch q)"
    by (simp add: all_rejected_iff)
  moreover from lst have "last (YouTube_outcomes tu ytSearch q) = Rejected err"
    by (simp add: last_outcome worker_Rejected)
  ultimately show ?thesis using q
    by (simp add: YouTube_search_def YouTube_search_args_def rethrow_def)
qed

text \<open>
  When at least one variant succeeds, \<open>search\<close> returns a list, and a rejected
  variant adds no candidate to it: leaving the accuracies aside, the list has the
  candidates of the run in which every rejected variant returns no video. The
  accuracies and the order are another matter, below.
\<close>

lemma rejected_variants_add_no_candidate:
  assumes q: "getSearchArgs ar tr al du = Inr q"
    and some: "\<exists>xf \<in> set variants.
       \<not> isRejected (ytSearch (join_sp (strippedMeta_B tu q @ xf)))"
  shows "\<exists>ys ys'.
          YouTube_search tu ytSearch ar tr al du = Inr ys
          \<and> YouTube_search tu (absorb ytSearch) ar tr al du = Inr ys'
          \<and> mset (map without_accuracy ys) = mset (map without_accuracy ys')"
proof -
  let ?ys = "Array_sort (by_accuracy y_accuracy) (Object_values (YouTube_final tu ytSearch q))"
  let ?ys' = "Array_sort (by_accuracy y_accuracy)
     (Object_values (YouTube_final tu (absorb ytSearch) q))"
  from some have "\<not> list_all isRejected (YouTube_outcomes tu ytSearch q)"
    by (simp add: all_rejected_iff)
  with q have 1: "YouTube_search tu ytSearch ar tr al du = Inr ?ys"
    by (simp add: YouTube_search_def YouTube_search_args_def)
  have "\<not> list_all isRejected (YouTube_outcomes tu (absorb ytSearch) q)"
    by (auto simp: all_rejected_iff absorb_never_rejected variants_def)
  with q have 2: "YouTube_search tu (absorb ytSearch) ar tr al du = Inr ?ys'"
    by (simp add: YouTube_search_def YouTube_search_args_def)
  have 3: "mset (map without_accuracy ?ys) = mset (map without_accuracy ?ys')"
    by (simp only: mset_sorted_values_erased YouTube_final_absorb)
  from 1 2 3 show ?thesis by (intro exI conjI)
qed

lemma run_B_absorbed_scenario_3:
  "YouTube_search spec_text_utils
     (absorb (answers
        [(plain_query, [video_item ''One More Time'' ''abc'' ''5:20'' 320 (Some 10)])]))
     (Array [String ''Daft Punk'']) (String ''One More Time'') (String [])
     (Number (Num 320000))
   = Inr [video_candidate ''One More Time'' ''abc'' ''5:20'' (Num 320000) [] (Num 100)]"
  by (simp add: run_B_defs absorb_def text_defs)

lemma run_B_two_videos:
  "run_B [(plain_query, [video_item ''One More Time'' ''xyz'' ''58:40'' 3520 None,
            video_item ''One More Time'' ''abc'' ''5:20'' 320 (Some 10)])]
   = Inr [video_candidate ''One More Time'' ''xyz'' ''58:40'' (Num 3520000) [] NaN,
          video_candidate ''One More Time'' ''abc'' ''5:20'' (Num 320000) [] NaN]"
  by (simp add: run_B_defs text_defs)

lemma run_B_absorbed_two_videos:
  "YouTube_search spec_text_utils
     (absorb (answers
        [(plain_query, [video_item ''One More Time'' ''xyz'' ''58:40'' 3520 None,
            video_item ''One More Time'' ''abc'' ''5:20'' 320 (Some 10)])]))
     (Array [String ''Daft Punk'']) (String ''One More Time'') (String [])
     (Number (Num 320000))
   = Inr [video_candidate ''One More Time'' ''abc'' ''5:20'' (Num 320000) [] (Num 100),
          video_candidate ''One More Time'' ''xyz'' ''58:40'' (Num 3520000) [] (Num (- 300))]"
  by (simp add: run_B_defs absorb_def text_defs)

text \<open>
  C2, at the runs of scenarios 4 and 3. When every variant is rejected, \<open>search\<close>
  throws the search error that carries the message and the code of the last variant's
  reason. When the first three variants are rejected and the last one returns a
  matching video, \<open>search\<close> returns that video and throws nothing, but the rejected
  variants are not read as empty results: the empty object of line 427 has no
  \<open>highestViews\<close>, where the empty result of line 390 has \<open>0\<close>, so the maximum of
  line 428 is NaN and so is the accuracy, which is \<open>100\<close> in the run where the three
  variants return no video. With two videos the order differs as well: every
  comparison with NaN fails, the list stays in stored order, and the better match comes
  last.
\<close>

theorem rejected_variant_is_not_an_empty_result:
  "run_B []
     = Inl (YouTubeSearchError
         \<lparr>message = ''no answer: one more time daft punk'', statusCode = None,
          status = Some ''ETIMEDOUT'', body = None\<rparr>)
   \<and> run_B [(plain_query, [video_item ''One More Time'' ''abc'' ''5:20'' 320 (Some 10)])]
     = Inr [video_candidate ''One More Time'' ''abc'' ''5:20'' (Num 320000) [] NaN]
   \<and> YouTube_search spec_text_utils
       (absorb (answers
          [(plain_query, [video_item ''One More Time'' ''abc'' ''5:20'' 320 (Some 10)])]))
       (Array [String ''Daft Punk'']) (String ''One More Time'') (String [])
       (Number (Num 320000))
     = Inr [video_candidate ''One More Time'' ''abc'' ''5:20'' (Num 320000) [] (Num 100)]
   \<and> run_B [(plain_query, [video_item ''One More Time'' ''xyz'' ''58:40'' 3520 None,
              video_item ''One More Time'' ''abc'' ''5:20'' 320 (Some 10)])]
     = Inr [video_candidate ''One More Time'' ''xyz'' ''58:40'' (Num 3520000) [] NaN,
            video_candidate ''One More Time'' ''abc'' ''5:20'' (Num 320000) [] NaN]
   \<and> YouTube_search spec_text_utils
       (absorb (answers
          [(plain_query, [video_item ''One More Time'' ''xyz'' ''58:40'' 3520 None,
              video_item ''One More Time'' ''abc'' ''5:20'' 320 (Some 10)])]))
       (Array [String ''Daft Punk'']) (String ''One More Time'') (String [])
       (Number (Num 320000))
     = Inr [video_candidate ''One More Time'' ''abc'' ''5:20'' (Num 320000) [] (Num 100),
            video_candidate ''One More Time'' ''xyz'' ''58:40'' (Num 3520000) []
              (Num (- 300))]"
  by (intro conjI)
     (rule run_B_scenario_4 run_B_scenario_3 run_B_absorbed_scenario_3 run_B_two_videos
        run_B_absorbed_two_videos)+

section \<open>The range of the accuracy\<close>

lemma usual_duration_cases:
  assumes "usual_duration d"
  obtains (none) "\<not> truthy d" | (some) r where "d = Number (Num r)" and "0 < r"
proof (cases "truthy d")
  case False
  then show ?thesis by (rule none)
next
  case True
  with assms obtain r where "d = Number (Num r)" and "0 < r"
    by (cases d rule: usual_duration.cases) auto
  then show ?thesis by (rule some)
qed

lemma duration_delta_usual:
  assumes "usual_duration d"
  shows "\<exists>x. duration_delta d (Num ms) = Num x \<and> 0 \<le> x"
  using assms
proof (cases d rule: usual_duration_cases)
  case none
  then show ?thesis by (intro exI [of _ "1 / 2"]) (simp add: duration_delta_def)
next
  case (some r)
  then show ?thesis by (simp add: duration_delta_def)
qed

lemma calcB_value:
  assumes x: "duration_delta d (duration_ms_B item) = Num x" and m: "m \<noteq> 0"
    and views: "v_views item = Some v"
  shows "calculateAccuracyFor_B tu d sa (Num m) item
     = Num (100 - (if ge (getWeight tu sa (stripText tu [v_author item])) (Num 80)
                   then 2 / 5 else 1) * (x * 100 * (1 - 4 / 5 * (real v / m))))"
  using m by (simp add: calculateAccuracyFor_B_def Let_def x views algebra_simps)



lemma spec_boost_range: "0 < spec_boost t \<and> spec_boost t \<le> 1 / 2"
  by (simp add: spec_boost_def)


lemma foldl_max2_NaN [simp]: "foldl max2 NaN xs = NaN"
  by (induction xs) simp_all

lemma max2_Num:
  "max2 a x = Num m \<Longrightarrow> a \<noteq> NaN \<and> x \<noteq> NaN \<and> \<not> gt a (Num m) \<and> \<not> gt x (Num m)"
  by (cases a; cases x) (auto split: if_splits)











lemma YouTubeMusic_accuracy_source:
  assumes cs: "YouTubeMusic_search tu tn request ar tr al du = Inr cs" and c: "c \<in> set cs"
    and q: "getSearchArgs ar tr al du = Inr q"
  shows "\<exists>x ms t. gt x (Num 65) \<and> gt (c_accuracy c) (Num 80)
      \<and> c_accuracy c = spec_accuracy_A (q_duration q) ms t x
      \<and> (\<exists>a b. x = getWeight tu a b)"
proof -
  from YouTubeMusic_search_final [OF cs] q obtain final where
    f: "YouTubeMusic_final tu tn request q = Inr final"
    and "cs = Array_sort (by_accuracy c_accuracy) (Object_values final)"
    by auto
  with c obtain k where "(k, c) \<in> set final"
    by (auto simp: set_Array_sort set_Object_values)
  from YouTubeMusic_final_source [OF f this] obtain results valid w where
    v: "validSections tu (strippedMeta_A tu q) (sections results) = Inr valid"
    and w: "w \<in> set valid" and e: "entry_of tn (q_duration q) w = Some (k, c)"
    by blast
  from validSections_item [OF v w] obtain item where
    "weigh tu (strippedMeta_A tu q) item = Inr (Some w)" by blast
  then have "\<exists>a b. w_weight w = getWeight tu a b"
    by (auto simp: weigh_def split: option.splits if_splits) blast+
  with entry_of_SomeD(1-3) [OF e] show ?thesis by blast
qed





section \<open>Monotonicity of the accuracy\<close>

lemma spec_penalty_supplied:
  "0 < d \<Longrightarrow> spec_duration_penalty (Number (Num d)) (Num m) = Num (\<bar>d - m\<bar> / d * 100)"
  by (simp add: spec_duration_penalty_def)

lemma spec_accuracy_A_supplied:
  assumes "0 < d"
  shows "spec_accuracy_A (Number (Num d)) (Num m) t (Num x)
     = Num (100 - (1 - spec_boost t) * (100 - x + \<bar>d - m\<bar> / d * 100))"
proof -
  define p where "p = \<bar>d - m\<bar> / d * 100"
  have "spec_duration_penalty (Number (Num d)) (Num m) = Num p"
    using assms by (simp add: spec_penalty_supplied p_def)
  then have "spec_accuracy_A (Number (Num d)) (Num m) t (Num x)
      = Num (100 - (1 - spec_boost t) * (100 - x + p))"
    by (simp add: spec_accuracy_A_def Let_def algebra_simps)
  then show ?thesis by (simp only: p_def)
qed

lemma spec_accuracy_A_not_finite:
  "0 < d \<Longrightarrow> \<not> (\<exists>x. w = Num x) \<Longrightarrow> spec_accuracy_A (Number (Num d)) (Num m) t w = NaN"
  using spec_boost_range [of t]
  by (cases w)
     (simp_all add: spec_accuracy_A_def Let_def spec_penalty_supplied nsub_def nmul_def
        signed_inf_def)

lemma accuracy_A_monotone:
  assumes d: "0 < d" and closer: "\<bar>d - m2\<bar> \<le> \<bar>d - m1\<bar>"
  shows "\<not> gt (spec_accuracy_A (Number (Num d)) (Num m1) t w)
              (spec_accuracy_A (Number (Num d)) (Num m2) t w)"
    and "w = Num x \<Longrightarrow> ge (spec_accuracy_A (Number (Num d)) (Num m2) t w)
              (spec_accuracy_A (Number (Num d)) (Num m1) t w)"
proof -
  have b: "0 \<le> 1 - spec_boost t" using spec_boost_range [of t] by simp
  have "\<bar>d - m2\<bar> / d * 100 \<le> \<bar>d - m1\<bar> / d * 100"
    using d closer by (simp add: divide_right_mono)
  then have "100 - y + \<bar>d - m2\<bar> / d * 100 \<le> 100 - y + \<bar>d - m1\<bar> / d * 100" for y
    by simp
  then have mono: "(1 - spec_boost t) * (100 - y + \<bar>d - m2\<bar> / d * 100)
      \<le> (1 - spec_boost t) * (100 - y + \<bar>d - m1\<bar> / d * 100)" for y
    using b by (rule mult_left_mono)
  show "\<not> gt (spec_accuracy_A (Number (Num d)) (Num m1) t w)
              (spec_accuracy_A (Number (Num d)) (Num m2) t w)"
  proof (cases "\<exists>y. w = Num y")
    case True
    then obtain y where "w = Num y" by blast
    with mono [of y] d show ?thesis by (simp add: spec_accuracy_A_supplied)
  next
    case False
    with d show ?thesis by (simp add: spec_accuracy_A_not_finite)
  qed
  show "ge (spec_accuracy_A (Number (Num d)) (Num m2) t w)
              (spec_accuracy_A (Number (Num d)) (Num m1) t w)" if "w = Num x"
    using mono [of x] d that by (auto simp: spec_accuracy_A_supplied)
qed

lemma calcB_closed:
  assumes d: "usual_duration d" and m: "0 < m" and views: "v_views item = Some v"
  shows "\<exists>c g. 0 \<le> c \<and> 0 \<le> g \<and> (\<forall>v'. calculateAccuracyFor_B tu d sa (Num m)
       (item\<lparr>v_views := Some v'\<rparr>) = Num (100 - c * (g * (1 - 4 / 5 * (real v' / m)))))"
proof -
  from duration_delta_usual [OF d] obtain x where
    x: "duration_delta d (duration_ms_B item) = Num x" and x0: "0 \<le> x"
    unfolding duration_ms_B_def by blast
  define c :: real where
    "c = (if ge (getWeight tu sa (stripText tu [v_author item])) (Num 80) then 2 / 5 else 1)"
  have c: "0 \<le> c" by (simp add: c_def)
  have "calculateAccuracyFor_B tu d sa (Num m) (item\<lparr>v_views := Some v'\<rparr>)
      = Num (100 - c * (x * 100 * (1 - 4 / 5 * (real v' / m))))" for v'
  proof -
    have x': "duration_delta d (duration_ms_B (item\<lparr>v_views := Some v'\<rparr>)) = Num x"
      using x by (simp add: duration_ms_B_def)
    have "m \<noteq> 0" using m by simp
    from calcB_value [OF x' this, of v' tu sa] show ?thesis
      by (simp add: c_def)
  qed
  with c x0 show ?thesis
    by (intro exI [of _ c] exI [of _ "x * 100"]) simp
qed

lemma accuracy_B_monotone:
  assumes d: "usual_duration d" and m: "0 < m" and v: "v1 \<le> v2"
    and views: "v_views item = Some v1"
  shows "ge (calculateAccuracyFor_B tu d sa (Num m) (item\<lparr>v_views := Some v2\<rparr>))
            (calculateAccuracyFor_B tu d sa (Num m) item)"
proof -
  from calcB_closed [OF d m views, of tu sa] obtain c g where c: "0 \<le> c" and g: "0 \<le> g"
    and eq: "\<And>v'. calculateAccuracyFor_B tu d sa (Num m) (item\<lparr>v_views := Some v'\<rparr>)
        = Num (100 - c * (g * (1 - 4 / 5 * (real v' / m))))"
    by blast
  have same: "item\<lparr>v_views := Some v1\<rparr> = item" using views by simp
  have "real v1 / m \<le> real v2 / m" using v m by (simp add: divide_right_mono)
  then have "1 - 4 / 5 * (real v2 / m) \<le> 1 - 4 / 5 * (real v1 / m)" by simp
  then have "g * (1 - 4 / 5 * (real v2 / m)) \<le> g * (1 - 4 / 5 * (real v1 / m))"
    using g by (rule mult_left_mono)
  then have "c * (g * (1 - 4 / 5 * (real v2 / m))) \<le> c * (g * (1 - 4 / 5 * (real v1 / m)))"
    using c by (rule mult_left_mono)
  with eq [of v2] eq [of v1] same show ?thesis by auto
qed

lemma nadd_NaN_left [simp]: "nadd NaN b = NaN"
  by simp

lemma accuracy_B_degenerate:
  assumes hv: "hv = NaN \<or> hv = Num 0" and v: "v1 \<le> v2" and views: "v_views item = Some v1"
  shows "\<not> gt (calculateAccuracyFor_B tu d sa hv item)
              (calculateAccuracyFor_B tu d sa hv (item\<lparr>v_views := Some v2\<rparr>))"
proof (cases "hv = Num 0 \<and> 0 < v1")
  case True
  then have "ndiv (Num (real v1)) hv = ndiv (Num (real v2)) hv"
    using v by (simp add: ndiv_def signed_inf_def)
  then have "calculateAccuracyFor_B tu d sa hv (item\<lparr>v_views := Some v2\<rparr>)
      = calculateAccuracyFor_B tu d sa hv item"
    by (simp add: calculateAccuracyFor_B_def duration_ms_B_def views)
  then show ?thesis by simp
next
  case False
  with hv have "ndiv (Num (real v1)) hv = NaN" by auto
  then have "calculateAccuracyFor_B tu d sa hv item = NaN"
    by (simp add: calculateAccuracyFor_B_def Let_def views)
  then show ?thesis by simp
qed

text \<open>
  C8. Backend A: with a supplied expected duration \<open>d\<close> (a positive number of
  milliseconds) and everything else fixed, an actual duration at least as close to
  \<open>d\<close> never gives a smaller accuracy; for a finite weight the two accuracies are
  numbers in that order. Backend B: with an expected duration of the data model and
  the same maximum of the batch, a larger view count never gives a smaller accuracy;
  when the maximum is positive the two accuracies are numbers in that order.
\<close>

theorem accuracy_is_monotone:
  "(0 < d \<and> \<bar>d - m2\<bar> \<le> \<bar>d - m1\<bar> \<longrightarrow>
      \<not> gt (calculateAccuracyFor_A (Number (Num d)) (item\<lparr>c_duration_ms := Num m1\<rparr>) w)
            (calculateAccuracyFor_A (Number (Num d)) (item\<lparr>c_duration_ms := Num m2\<rparr>) w)
      \<and> (w = Num x \<longrightarrow>
           ge (calculateAccuracyFor_A (Number (Num d)) (item\<lparr>c_duration_ms := Num m2\<rparr>) w)
              (calculateAccuracyFor_A (Number (Num d)) (item\<lparr>c_duration_ms := Num m1\<rparr>) w)))
   \<and> (usual_duration du \<and> v_views video = Some v1 \<and> v1 \<le> v2
        \<and> (hv = NaN \<or> hv = Num m \<and> 0 \<le> m) \<longrightarrow>
      \<not> gt (calculateAccuracyFor_B tu du sa hv video)
            (calculateAccuracyFor_B tu du sa hv (video\<lparr>v_views := Some v2\<rparr>))
      \<and> (hv = Num m \<and> 0 < m \<longrightarrow>
           ge (calculateAccuracyFor_B tu du sa hv (video\<lparr>v_views := Some v2\<rparr>))
              (calculateAccuracyFor_B tu du sa hv video)))"
proof (intro conjI impI)
  assume a: "0 < d \<and> \<bar>d - m2\<bar> \<le> \<bar>d - m1\<bar>"
  then show "\<not> gt (calculateAccuracyFor_A (Number (Num d)) (item\<lparr>c_duration_ms := Num m1\<rparr>) w)
            (calculateAccuracyFor_A (Number (Num d)) (item\<lparr>c_duration_ms := Num m2\<rparr>) w)"
    using accuracy_A_monotone(1) [of d m2 m1 "c_type item" w] by (simp add: calcA_spec)
  assume "w = Num x"
  with a show "ge (calculateAccuracyFor_A (Number (Num d)) (item\<lparr>c_duration_ms := Num m2\<rparr>) w)
              (calculateAccuracyFor_A (Number (Num d)) (item\<lparr>c_duration_ms := Num m1\<rparr>) w)"
    using accuracy_A_monotone(2) [of d m2 m1 w x "c_type item"] by (simp add: calcA_spec)
next
  assume b: "usual_duration du \<and> v_views video = Some v1 \<and> v1 \<le> v2
        \<and> (hv = NaN \<or> hv = Num m \<and> 0 \<le> m)"
  show "\<not> gt (calculateAccuracyFor_B tu du sa hv video)
            (calculateAccuracyFor_B tu du sa hv (video\<lparr>v_views := Some v2\<rparr>))"
  proof (cases "hv = Num m \<and> 0 < m")
    case True
    with b accuracy_B_monotone [of du m v1 v2 video tu sa]
    have "ge (calculateAccuracyFor_B tu du sa hv (video\<lparr>v_views := Some v2\<rparr>))
            (calculateAccuracyFor_B tu du sa hv video)" by simp
    then show ?thesis
      by (cases "calculateAccuracyFor_B tu du sa hv (video\<lparr>v_views := Some v2\<rparr>)";
          cases "calculateAccuracyFor_B tu du sa hv video") auto
  next
    case False
    with b have "hv = NaN \<or> hv = Num 0" by auto
    with b show ?thesis by (intro accuracy_B_degenerate) simp_all
  qed
  assume "hv = Num m \<and> 0 < m"
  with b accuracy_B_monotone [of du m v1 v2 video tu sa]
  show "ge (calculateAccuracyFor_B tu du sa hv (video\<lparr>v_views := Some v2\<rparr>))
            (calculateAccuracyFor_B tu du sa hv video)" by simp
qed

theorem accuracy_is_monotone_witness:
  "\<not> gt (calculateAccuracyFor_A (Number (Num 320000))
          (song_candidate ''One More Time'' (Some ''abc'') ''5:30'' (Num 330000) NaN) (Num 100))
        (calculateAccuracyFor_A (Number (Num 320000))
          (song_candidate ''One More Time'' (Some ''abc'') ''5:30'' (Num 321000) NaN) (Num 100))
   \<and> ge (calculateAccuracyFor_A (Number (Num 320000))
          (song_candidate ''One More Time'' (Some ''abc'') ''5:30'' (Num 321000) NaN) (Num 100))
        (calculateAccuracyFor_A (Number (Num 320000))
          (song_candidate ''One More Time'' (Some ''abc'') ''5:30'' (Num 330000) NaN) (Num 100))
   \<and> \<not> gt (calculateAccuracyFor_B spec_text_utils (Number (Num 320000)) [''daft'', ''punk''] (Num 10)
          (video_item ''One More Time'' ''abc'' ''5:30'' 330 (Some 2)))
        (calculateAccuracyFor_B spec_text_utils (Number (Num 320000)) [''daft'', ''punk''] (Num 10)
          (video_item ''One More Time'' ''abc'' ''5:30'' 330 (Some 7)))
   \<and> ge (calculateAccuracyFor_B spec_text_utils (Number (Num 320000)) [''daft'', ''punk''] (Num 10)
          (video_item ''One More Time'' ''abc'' ''5:30'' 330 (Some 7)))
        (calculateAccuracyFor_B spec_text_utils (Number (Num 320000)) [''daft'', ''punk''] (Num 10)
          (video_item ''One More Time'' ''abc'' ''5:30'' 330 (Some 2)))"
proof -
  let ?c = "song_candidate ''One More Time'' (Some ''abc'') ''5:30'' (Num 330000) NaN"
  let ?v = "video_item ''One More Time'' ''abc'' ''5:30'' 330 (Some 2)"
  note inst = accuracy_is_monotone
    [where d = 320000 and ?m1.0 = 330000 and ?m2.0 = 321000 and item = "?c" and w = "Num 100"
       and x = 100 and du = "Number (Num 320000)" and video = "?v" and ?v1.0 = 2 and ?v2.0 = 7
       and hv = "Num 10" and m = 10 and tu = spec_text_utils and sa = "[''daft'', ''punk'']"]
  have a: "(0::real) < 320000 \<and> \<bar>320000 - 321000\<bar> \<le> \<bar>(320000::real) - 330000\<bar>" by simp
  have b: "usual_duration (Number (Num 320000)) \<and> v_views ?v = Some 2 \<and> (2::nat) \<le> 7
        \<and> (Num 10 = NaN \<or> Num 10 = Num 10 \<and> (0::real) \<le> 10)"
    by (simp add: video_item_def)
  have m: "Num 10 = Num 10 \<and> (0::real) < 10" by simp
  have c1: "?c\<lparr>c_duration_ms := Num 330000\<rparr> = ?c" by (simp add: song_candidate_def)
  have c2: "?c\<lparr>c_duration_ms := Num 321000\<rparr>
      = song_candidate ''One More Time'' (Some ''abc'') ''5:30'' (Num 321000) NaN"
    by (simp add: song_candidate_def)
  have v2: "?v\<lparr>v_views := Some 7\<rparr> = video_item ''One More Time'' ''abc'' ''5:30'' 330 (Some 7)"
    by (simp add: video_item_def)
  note A = inst [THEN conjunct1, THEN mp, OF a, unfolded c1 c2]
  note B = inst [THEN conjunct2, THEN mp, OF b, unfolded v2]
  from A B m show ?thesis by blast
qed

section \<open>The order of the result\<close>

lemma spec_accuracy_A_not_PInf: "spec_accuracy_A d ms t w \<noteq> PInf"
proof -
  have b: "0 < spec_boost t" using spec_boost_range [of t] by simp
  show ?thesis
    unfolding spec_accuracy_A_def Let_def
    using b
    by (cases "nsub w (spec_duration_penalty d ms)")
       (simp_all add: nsub_def nmul_def signed_inf_def)
qed

lemma accepted_accuracy_finite:
  assumes "gt (spec_accuracy_A d ms t w) (Num 80)"
  shows "\<exists>r. spec_accuracy_A d ms t w = Num r"
  using assms spec_accuracy_A_not_PInf [of d ms t w]
  by (cases "spec_accuracy_A d ms t w") simp_all

lemma foldl_decimal_lower:
  "n * 10 ^ length s \<le> foldl (\<lambda>n c. 10 * n + digit_value c) n s"
proof (induction s arbitrary: n)
  case Nil
  then show ?case by simp
next
  case (Cons c s)
  have "n * 10 ^ length (c # s) \<le> (10 * n + digit_value c) * 10 ^ length s"
    by (simp add: algebra_simps)
  also have "\<dots> \<le> foldl (\<lambda>n c. 10 * n + digit_value c) (10 * n + digit_value c) s"
    by (rule Cons.IH)
  finally show ?case by simp
qed

lemma eleven_characters_not_array_index:
  assumes "length s = 11"
  shows "\<not> is_array_index s"
proof
  assume a: "is_array_index s"
  from assms obtain c cs where s: "s = c # cs" and cs: "length cs = 10"
    by (cases s) auto
  from a s cs have "is_digit c" "c \<noteq> CHR ''0''"
    by (auto simp: is_array_index_def)
  then have "1 \<le> digit_value c"
  proof -
    assume d: "is_digit c" and nz: "c \<noteq> CHR ''0''"
    have "of_char c \<noteq> (48::nat)"
    proof
      assume "of_char c = (48::nat)"
      then have "(of_char c :: nat) = of_char CHR ''0''" by simp
      then have "c = CHR ''0''" by (simp only: of_char_eq_iff)
      with nz show False by simp
    qed
    with d show ?thesis unfolding is_digit_def digit_value_def by linarith
  qed
  then have "1 * 10 ^ length cs \<le> digit_value c * 10 ^ length cs"
    by (intro mult_right_mono) simp_all
  also have "\<dots> \<le> decimal_value s"
    using foldl_decimal_lower [of "digit_value c" cs] by (simp add: decimal_value_def s)
  finally have "10 ^ 10 \<le> decimal_value s" by (simp add: cs)
  with a show False by (simp add: is_array_index_def)
qed

text \<open>
  C6. The list either backend returns is in descending order of accuracy: no candidate
  is followed by one with a strictly greater accuracy (for Backend A the accuracies
  are finite numbers). Candidates with the same accuracy stand in the order in which
  they were stored in the dictionary, provided that no identifier is an array index,
  which \<open>Object.values\<close> would list first; an identifier of 11 characters never is
  one.
\<close>

theorem sorted_descending_and_stable:
  "(YouTubeMusic_search tu ToNumber request ar tr al du = Inr cs \<longrightarrow>
      descending c_accuracy cs \<and> (\<forall>c \<in> set cs. \<exists>r. c_accuracy c = Num r))
   \<and> (getSearchArgs ar tr al du = Inr q
        \<and> YouTubeMusic_final tu ToNumber request q = Inr final
        \<and> (\<forall>e \<in> set final. \<not> is_array_index (fst e))
        \<and> YouTubeMusic_search tu ToNumber request ar tr al du = Inr cs \<longrightarrow>
      filter (\<lambda>c. c_accuracy c = n) cs = filter (\<lambda>c. c_accuracy c = n) (map snd final))
   \<and> (YouTube_search tu ytSearch ar tr al du = Inr ys \<longrightarrow> descending y_accuracy ys)
   \<and> (getSearchArgs ar tr al du = Inr q
        \<and> (\<forall>e \<in> set (YouTube_final tu ytSearch q). \<not> is_array_index (fst e))
        \<and> YouTube_search tu ytSearch ar tr al du = Inr ys \<longrightarrow>
      filter (\<lambda>c. y_accuracy c = n) ys
        = filter (\<lambda>c. y_accuracy c = n) (map snd (YouTube_final tu ytSearch q)))"
proof (intro conjI impI ballI)
  assume a: "YouTubeMusic_search tu ToNumber request ar tr al du = Inr cs"
  from YouTubeMusic_search_final [OF a] show "descending c_accuracy cs"
    by (auto simp: descending_Array_sort)
  fix c assume c: "c \<in> set cs"
  from YouTubeMusic_search_final [OF a] obtain q' where q': "getSearchArgs ar tr al du = Inr q'"
    by blast
  from YouTubeMusic_accuracy_source [OF a c q'] show "\<exists>r. c_accuracy c = Num r"
    using accepted_accuracy_finite by metis
next
  assume a: "getSearchArgs ar tr al du = Inr q
        \<and> YouTubeMusic_final tu ToNumber request q = Inr final
        \<and> (\<forall>e \<in> set final. \<not> is_array_index (fst e))
        \<and> YouTubeMusic_search tu ToNumber request ar tr al du = Inr cs"
  then have "cs = Array_sort (by_accuracy c_accuracy) (Object_values final)"
    by (auto simp: YouTubeMusic_search_def YouTubeMusic_search_args_def)
  with a show "filter (\<lambda>c. c_accuracy c = n) cs
      = filter (\<lambda>c. c_accuracy c = n) (map snd final)"
    by (simp add: Object_values_plain stable_Array_sort)
next
  assume a: "YouTube_search tu ytSearch ar tr al du = Inr ys"
  from YouTube_search_final [OF a] show "descending y_accuracy ys"
    by (auto simp: descending_Array_sort)
next
  assume a: "getSearchArgs ar tr al du = Inr q
        \<and> (\<forall>e \<in> set (YouTube_final tu ytSearch q). \<not> is_array_index (fst e))
        \<and> YouTube_search tu ytSearch ar tr al du = Inr ys"
  with YouTube_search_final [of tu ytSearch ar tr al du ys]
  have "ys = Array_sort (by_accuracy y_accuracy) (Object_values (YouTube_final tu ytSearch q))"
    by auto
  with a show "filter (\<lambda>c. y_accuracy c = n) ys
      = filter (\<lambda>c. y_accuracy c = n) (map snd (YouTube_final tu ytSearch q))"
    by (simp add: Object_values_plain stable_Array_sort)
qed

theorem sorted_descending_and_stable_witness:
  "descending c_accuracy
     [song_candidate ''One More Time'' (Some ''abc'') ''5:20'' (Num 320000) (Num 100),
      song_candidate ''One More Time'' (Some ''xyz'') ''5:24'' (Num 324000) (Num (795 / 8)),
      song_candidate ''One More Time'' (Some ''def'') ''5:24'' (Num 324000) (Num (795 / 8))]
   \<and> filter (\<lambda>c. c_accuracy c = Num (795 / 8))
       [song_candidate ''One More Time'' (Some ''abc'') ''5:20'' (Num 320000) (Num 100),
        song_candidate ''One More Time'' (Some ''xyz'') ''5:24'' (Num 324000) (Num (795 / 8)),
        song_candidate ''One More Time'' (Some ''def'') ''5:24'' (Num 324000) (Num (795 / 8))]
     = filter (\<lambda>c. c_accuracy c = Num (795 / 8))
       [song_candidate ''One More Time'' (Some ''xyz'') ''5:24'' (Num 324000) (Num (795 / 8)),
        song_candidate ''One More Time'' (Some ''abc'') ''5:20'' (Num 320000) (Num 100),
        song_candidate ''One More Time'' (Some ''def'') ''5:24'' (Num 324000) (Num (795 / 8))]
   \<and> descending y_accuracy
     [video_candidate ''One More Time'' ''abc'' ''5:20'' (Num 320000) [] (Num 100),
      video_candidate ''One More Time'' ''xyz'' ''5:24'' (Num 324000) [] (Num (999 / 10)),
      video_candidate ''One More Time'' ''def'' ''5:24'' (Num 324000) [] (Num (999 / 10))]
   \<and> filter (\<lambda>c. y_accuracy c = Num (999 / 10))
       [video_candidate ''One More Time'' ''abc'' ''5:20'' (Num 320000) [] (Num 100),
        video_candidate ''One More Time'' ''xyz'' ''5:24'' (Num 324000) [] (Num (999 / 10)),
        video_candidate ''One More Time'' ''def'' ''5:24'' (Num 324000) [] (Num (999 / 10))]
     = filter (\<lambda>c. y_accuracy c = Num (999 / 10))
       [video_candidate ''One More Time'' ''xyz'' ''5:24'' (Num 324000) [] (Num (999 / 10)),
        video_candidate ''One More Time'' ''abc'' ''5:20'' (Num 320000) [] (Num 100),
        video_candidate ''One More Time'' ''def'' ''5:24'' (Num 324000) [] (Num (999 / 10))]"
proof -
  let ?q = "\<lparr>q_artists = [''Daft Punk''], q_track = ''One More Time'', q_album = [],
      q_duration = Number (Num 320000)\<rparr>"
  let ?items = "[song_item ''One More Time'' (Some ''xyz'') ''5:24'',
          song_item ''One More Time'' (Some ''abc'') ''5:20'',
          song_item ''One More Time'' (Some ''def'') ''5:24'']"
  let ?a = "song_candidate ''One More Time'' (Some ''abc'') ''5:20'' (Num 320000) (Num 100)"
  let ?x = "song_candidate ''One More Time'' (Some ''xyz'') ''5:24'' (Num 324000) (Num (795 / 8))"
  let ?d = "song_candidate ''One More Time'' (Some ''def'') ''5:24'' (Num 324000) (Num (795 / 8))"
  let ?table = "all_succeed [video_item ''One More Time'' ''xyz'' ''5:24'' 324 (Some 10),
      video_item ''One More Time'' ''abc'' ''5:20'' 320 (Some 10),
      video_item ''One More Time'' ''def'' ''5:24'' 324 (Some 10)]"
  let ?ya = "video_candidate ''One More Time'' ''abc'' ''5:20'' (Num 320000) [] (Num 100)"
  let ?yx = "video_candidate ''One More Time'' ''xyz'' ''5:24'' (Num 324000) [] (Num (999 / 10))"
  let ?yd = "video_candidate ''One More Time'' ''def'' ''5:24'' (Num 324000) [] (Num (999 / 10))"
  note inst = sorted_descending_and_stable
    [where tu = spec_text_utils and ToNumber = decimal_ToNumber
       and request = "songs_response ?items" and ytSearch = "answers ?table"
       and ar = "Array [String ''Daft Punk'']" and tr = "String ''One More Time''"
       and al = "String []" and du = "Number (Num 320000)" and q = "?q"
       and cs = "[?a, ?x, ?d]" and final = "[(''xyz'', ?x), (''abc'', ?a), (''def'', ?d)]"
       and ys = "[?ya, ?yx, ?yd]"]
  have q: "getSearchArgs (Array [String ''Daft Punk'']) (String ''One More Time'') (String [])
      (Number (Num 320000)) = Inr ?q"
    by (simp add: getSearchArgs_def validateArgs_def shuffle_defs)
  have a: "YouTubeMusic_search spec_text_utils decimal_ToNumber (songs_response ?items)
      (Array [String ''Daft Punk'']) (String ''One More Time'') (String [])
      (Number (Num 320000)) = Inr [?a, ?x, ?d]"
    using run_A_tie by (simp add: run_A_def)
  have b: "YouTube_search spec_text_utils (answers ?table)
      (Array [String ''Daft Punk'']) (String ''One More Time'') (String [])
      (Number (Num 320000)) = Inr [?ya, ?yx, ?yd]"
    using run_B_tie by (simp add: run_B_def)
  have ia: "\<forall>e \<in> set [(''xyz'', ?x), (''abc'', ?a), (''def'', ?d)]. \<not> is_array_index (fst e)"
    by (simp add: is_array_index_def is_digit_def)
  have ib: "\<forall>e \<in> set (YouTube_final spec_text_utils (answers ?table) ?q).
      \<not> is_array_index (fst e)"
    by (simp add: final_B_tie is_array_index_def is_digit_def)
  note 1 = inst [THEN conjunct1, THEN mp, OF a, THEN conjunct1]
  have 2: "filter (\<lambda>c. c_accuracy c = Num (795 / 8)) [?a, ?x, ?d]
      = filter (\<lambda>c. c_accuracy c = Num (795 / 8))
          (map snd [(''xyz'', ?x), (''abc'', ?a), (''def'', ?d)])"
    by (rule inst [THEN conjunct2, THEN conjunct1, THEN mp]) (intro conjI q final_A_tie ia a)
  note 3 = inst [THEN conjunct2, THEN conjunct2, THEN conjunct1, THEN mp, OF b]
  have 4: "filter (\<lambda>c. y_accuracy c = Num (999 / 10)) [?ya, ?yx, ?yd]
      = filter (\<lambda>c. y_accuracy c = Num (999 / 10))
          (map snd (YouTube_final spec_text_utils (answers ?table) ?q))"
    by (rule inst [THEN conjunct2, THEN conjunct2, THEN conjunct2, THEN mp])
       (intro conjI q ib b)
  from 2 have s2: "filter (\<lambda>c. c_accuracy c = Num (795 / 8)) [?a, ?x, ?d]
      = filter (\<lambda>c. c_accuracy c = Num (795 / 8)) [?x, ?a, ?d]"
    by (simp only: list.map snd_conv)
  from 4 have s4: "filter (\<lambda>c. y_accuracy c = Num (999 / 10)) [?ya, ?yx, ?yd]
      = filter (\<lambda>c. y_accuracy c = Num (999 / 10)) [?yx, ?ya, ?yd]"
    by (simp only: final_B_tie list.map snd_conv)
  show ?thesis
    by (intro conjI) (rule 1 s2 3 s4)+
qed

end
